theory Spec2Isabelle
  imports Main "HOL-Library.Word"
begin

unbundle bit_operations_syntax

section \<open>Octets, buffers and errors\<close>

text \<open>
  A Go \<^verbatim>\<open>[]byte\<close> is a list of 8-bit words. A method that writes into a slice it is
  given returns the slice's contents after the call; a method with a pointer receiver
  returns the receiver after the call, also when it returns an error. Lengths and
  offsets are Go \<^verbatim>\<open>int\<close>s that are never negative here, so they are \<open>nat\<close>; every
  \<^verbatim>\<open>uint8\<close> computation stays in \<open>8 word\<close>, where \<open>+\<close> and \<open>-\<close> wrap.
\<close>

type_synonym byte = "8 word"

text \<open>
  The error values of the package: \<^verbatim>\<open>io.ErrUnexpectedEOF\<close>, the three
  \<^verbatim>\<open>fmt.Errorf\<close> messages of \<^verbatim>\<open>ValidateProtocolClass\<close> and
  \<^verbatim>\<open>HandleUserInService\<close>, and the run-time panic of an out-of-range slice
  expression or a nil dereference.
\<close>

datatype error =
    ErrUnexpectedEOF
  | ErrProtocolClassNil
  | ErrInvalidProtocolClass nat
  | ErrEntryNotFound "16 word" "8 word"
  | ErrRemoteSubsystem
  | ErrPanic

text \<open>\<^verbatim>\<open>b[lo:hi]\<close> for \<open>lo \<le> hi \<le> length b\<close>.\<close>

definition subslice :: "byte list \<Rightarrow> nat \<Rightarrow> nat \<Rightarrow> byte list" where
  "subslice b lo hi = take (hi - lo) (drop lo b)"

text \<open>
  Writing through the sub-slice \<^verbatim>\<open>b[lo:lo+len(s)]\<close>: the octets of \<open>b\<close> from \<open>lo\<close>
  on are replaced by \<open>s\<close>, the others stay.
\<close>

definition write_at :: "byte list \<Rightarrow> nat \<Rightarrow> byte list \<Rightarrow> byte list" where
  "write_at b lo s = take lo b @ s @ drop (lo + length s) b"

text \<open>\<^verbatim>\<open>binary.LittleEndian.PutUint16\<close> and \<^verbatim>\<open>binary.LittleEndian.Uint16\<close>.\<close>

definition PutUint16 :: "byte list \<Rightarrow> nat \<Rightarrow> 16 word \<Rightarrow> byte list" where
  "PutUint16 b i v = (b[i := ucast v])[i + 1 := ucast (drop_bit 8 v)]"

definition Uint16 :: "byte list \<Rightarrow> nat \<Rightarrow> 16 word" where
  "Uint16 b i = ucast (b ! i) OR push_bit 8 (ucast (b ! (i + 1)))"

section \<open>SCMG messages\<close>

type_synonym SCMGType = "8 word"

definition SCMGTypeSSA :: SCMGType where "SCMGTypeSSA = 1"
definition SCMGTypeSSP :: SCMGType where "SCMGTypeSSP = 2"
definition SCMGTypeSST :: SCMGType where "SCMGTypeSST = 3"
definition SCMGTypeSOR :: SCMGType where "SCMGTypeSOR = 4"
definition SCMGTypeSOG :: SCMGType where "SCMGTypeSOG = 5"
definition SCMGTypeSSC :: SCMGType where "SCMGTypeSSC = 6"

record SCMG =
  Type :: SCMGType
  AffectedSSN :: "8 word"
  AffectedPC :: "16 word"
  SubsystemMultiplicityIndicator :: "8 word"
  SCCPCongestionLevel :: "8 word"

definition NewSCMG :: "SCMGType \<Rightarrow> 8 word \<Rightarrow> 16 word \<Rightarrow> 8 word \<Rightarrow> 8 word \<Rightarrow> SCMG" where
  "NewSCMG typ assn apc smi scl =
     \<lparr>SCMG.Type = typ, AffectedSSN = assn, AffectedPC = apc,
      SubsystemMultiplicityIndicator = smi, SCCPCongestionLevel = scl\<rparr>"

text \<open>The zero value \<^verbatim>\<open>&SCMG{}\<close>.\<close>

definition SCMG_zero :: SCMG where
  "SCMG_zero = NewSCMG 0 0 0 0 0"

definition SCMG_MarshalLen :: "SCMG \<Rightarrow> nat" where
  "SCMG_MarshalLen s = (if SCMG.Type s = SCMGTypeSSC then 5 + 1 else 5)"

definition SCMG_MarshalTo :: "SCMG \<Rightarrow> byte list \<Rightarrow> error option \<times> byte list" where
  "SCMG_MarshalTo s b =
     (if length b < SCMG_MarshalLen s then (Some ErrUnexpectedEOF, b)
      else
        let b0 = b[0 := SCMG.Type s];
            b1 = b0[1 := AffectedSSN s];
            b2 = PutUint16 b1 2 (AffectedPC s);
            b3 = b2[4 := SubsystemMultiplicityIndicator s];
            b4 = (if SCMG.Type s = SCMGTypeSSC then b3[5 := SCCPCongestionLevel s] else b3)
        in (None, b4))"

definition SCMG_MarshalBinary :: "SCMG \<Rightarrow> error + byte list" where
  "SCMG_MarshalBinary s =
     (case SCMG_MarshalTo s (replicate (SCMG_MarshalLen s) 0) of
        (Some err, _) \<Rightarrow> Inl err
      | (None, b) \<Rightarrow> Inr b)"

definition SCMG_UnmarshalBinary :: "SCMG \<Rightarrow> byte list \<Rightarrow> error option \<times> SCMG" where
  "SCMG_UnmarshalBinary s b =
     (if length b < 5 then (Some ErrUnexpectedEOF, s)
      else
        let s1 = s\<lparr>SCMG.Type := b ! 0,
                   AffectedSSN := b ! 1,
                   AffectedPC := Uint16 b 2,
                   SubsystemMultiplicityIndicator := b ! 4\<rparr>
        in if SCMG.Type s1 = SCMGTypeSSC
           then (if length b < 6 then (Some ErrUnexpectedEOF, s1)
                 else (None, s1\<lparr>SCCPCongestionLevel := b ! 5\<rparr>))
           else (None, s1))"

definition ParseSCMG :: "byte list \<Rightarrow> error + SCMG" where
  "ParseSCMG b =
     (case SCMG_UnmarshalBinary SCMG_zero b of
        (Some err, _) \<Rightarrow> Inl err
      | (None, s) \<Rightarrow> Inr s)"

section \<open>Parameter sub-codecs\<close>

text \<open>
  The package \<^verbatim>\<open>params\<close> (ProtocolClass, PartyAddress, Data) is imported by
  \<^verbatim>\<open>udt.go\<close>; its contract is the one of the specification: a protocol class is one
  octet, low nibble the class and bit 0x80 the return-on-error option; a party address and
  a data parameter are a single length octet \<open>L\<close> followed by \<open>L\<close> octets, and their
  \<^verbatim>\<open>marshal_len\<close> includes the length octet; a write into a buffer that is too
  short, and a read from one, fails with \<^verbatim>\<open>io.ErrUnexpectedEOF\<close>. A write returns the
  number of octets written, the error, and the slice after the call.
\<close>

text \<open>Modelled from the spec: the type \<^verbatim>\<open>params.ProtocolClass\<close>, absent from the
  sources: its one octet on the wire.\<close>

record ProtocolClass =
  pc_value :: byte

text \<open>Modelled from the spec: \<^verbatim>\<open>params.NewProtocolClass\<close>, the class in the low nibble
  and return-on-error as bit 0x80.\<close>

definition NewProtocolClass :: "int \<Rightarrow> bool \<Rightarrow> ProtocolClass" where
  "NewProtocolClass pcls retOnErr =
     \<lparr>pc_value = (of_int pcls AND 0x0F) OR (if retOnErr then 0x80 else 0)\<rparr>"

text \<open>Modelled from the spec: \<^verbatim>\<open>ProtocolClass.GetProtocolClass\<close>, the low nibble.\<close>

definition GetProtocolClass :: "ProtocolClass \<Rightarrow> nat" where
  "GetProtocolClass p = unat (pc_value p AND 0x0F)"

text \<open>Modelled from the spec: \<^verbatim>\<open>ProtocolClass.HasReturnOption\<close>, bit 0x80.\<close>

definition HasReturnOption :: "ProtocolClass \<Rightarrow> bool" where
  "HasReturnOption p = (pc_value p AND 0x80 \<noteq> 0)"

text \<open>Modelled from the spec: \<^verbatim>\<open>ProtocolClass.Write\<close>, one octet.\<close>

definition ProtocolClass_Write ::
  "ProtocolClass \<Rightarrow> byte list \<Rightarrow> nat \<times> error option \<times> byte list" where
  "ProtocolClass_Write p s =
     (if length s < 1 then (0, Some ErrUnexpectedEOF, s)
      else (1, None, s[0 := pc_value p]))"

text \<open>Modelled from the spec: the type \<^verbatim>\<open>params.PartyAddress\<close>, absent from the
  sources. A party address is opaque: the octets that follow its length octet.\<close>

record PartyAddress =
  addr :: "byte list"

text \<open>Modelled from the spec: \<^verbatim>\<open>PartyAddress.MarshalLen\<close>, the length octet and the
  address octets.\<close>

definition PartyAddress_MarshalLen :: "PartyAddress \<Rightarrow> nat" where
  "PartyAddress_MarshalLen p = 1 + length (addr p)"

text \<open>Modelled from the spec: \<^verbatim>\<open>PartyAddress.Write\<close>, the length octet (a
  \<^verbatim>\<open>uint8\<close>) and then the address octets.\<close>

definition PartyAddress_Write ::
  "PartyAddress \<Rightarrow> byte list \<Rightarrow> nat \<times> error option \<times> byte list" where
  "PartyAddress_Write p s =
     (if length s < PartyAddress_MarshalLen p then (0, Some ErrUnexpectedEOF, s)
      else (PartyAddress_MarshalLen p, None, write_at s 0 (of_nat (length (addr p)) # addr p)))"

text \<open>Modelled from the spec: the reader shared by the two address parsers of
  \<^verbatim>\<open>params\<close>, absent from the sources. It reads the length octet \<open>L\<close> and the \<open>L\<close>
  octets after it, and returns nil and \<^verbatim>\<open>io.ErrUnexpectedEOF\<close> on a short slice.\<close>

definition ParsePartyAddress :: "byte list \<Rightarrow> PartyAddress option \<times> error option" where
  "ParsePartyAddress s =
     (if length s < 1 then (None, Some ErrUnexpectedEOF)
      else if length s < 1 + unat (s ! 0) then (None, Some ErrUnexpectedEOF)
      else (Some \<lparr>addr = subslice s 1 (1 + unat (s ! 0))\<rparr>, None))"

text \<open>Modelled from the spec: \<^verbatim>\<open>params.ParseCalledPartyAddress\<close>; it returns the
  address (or nil) and the error.\<close>

definition ParseCalledPartyAddress :: "byte list \<Rightarrow> PartyAddress option \<times> error option" where
  "ParseCalledPartyAddress = ParsePartyAddress"

text \<open>Modelled from the spec: \<^verbatim>\<open>params.ParseCallingPartyAddress\<close>; it returns the
  address (or nil) and the error.\<close>

definition ParseCallingPartyAddress :: "byte list \<Rightarrow> PartyAddress option \<times> error option" where
  "ParseCallingPartyAddress = ParsePartyAddress"

text \<open>Modelled from the spec: the type \<^verbatim>\<open>params.Data\<close>, absent from the sources: the
  payload octets.\<close>

record Data =
  data_value :: "byte list"

text \<open>Modelled from the spec: \<^verbatim>\<open>params.NewData\<close>, the constructor from raw octets.\<close>

definition NewData :: "byte list \<Rightarrow> Data" where
  "NewData d = \<lparr>data_value = d\<rparr>"

text \<open>Modelled from the spec: \<^verbatim>\<open>Data.MarshalLen\<close>, the length octet and the payload.\<close>

definition Data_MarshalLen :: "Data \<Rightarrow> nat" where
  "Data_MarshalLen d = 1 + length (data_value d)"

text \<open>Modelled from the spec: \<^verbatim>\<open>Data.Write\<close>, the length octet (a \<^verbatim>\<open>uint8\<close>) and
  then the payload.\<close>

definition Data_Write :: "Data \<Rightarrow> byte list \<Rightarrow> nat \<times> error option \<times> byte list" where
  "Data_Write d s =
     (if length s < Data_MarshalLen d then (0, Some ErrUnexpectedEOF, s)
      else (Data_MarshalLen d, None, write_at s 0 (of_nat (length (data_value d)) # data_value d)))"

text \<open>Modelled from the spec: \<^verbatim>\<open>Data.Read\<close> on the fresh \<^verbatim>\<open>&params.Data{}\<close>; it returns
  the receiver after the call and the error.\<close>

definition Data_Read :: "byte list \<Rightarrow> Data \<times> error option" where
  "Data_Read s =
     (if length s < 1 then (NewData [], Some ErrUnexpectedEOF)
      else if length s < 1 + unat (s ! 0) then (NewData [], Some ErrUnexpectedEOF)
      else (NewData (subslice s 1 (1 + unat (s ! 0))), None))"

section \<open>UDT messages\<close>

type_synonym MsgType = "8 word"

definition MsgTypeUDT :: MsgType where "MsgTypeUDT = 9"

text \<open>
  The pointer fields of the Go struct (\<^verbatim>\<open>*params.ProtocolClass\<close> and so on) may be nil:
  they are options.
\<close>

record UDT =
  Type :: MsgType
  ProtocolClass :: "ProtocolClass option"
  SLS :: "8 word"
  CalledPartyAddress :: "PartyAddress option"
  CallingPartyAddress :: "PartyAddress option"
  Data :: "Data option"
  ptr1 :: "8 word"
  ptr2 :: "8 word"
  ptr3 :: "8 word"

text \<open>The zero value \<^verbatim>\<open>&UDT{}\<close>.\<close>

definition UDT_zero :: UDT where
  "UDT_zero = \<lparr>UDT.Type = 0, ProtocolClass = None, SLS = 0, CalledPartyAddress = None,
               CallingPartyAddress = None, Data = None, ptr1 = 0, ptr2 = 0, ptr3 = 0\<rparr>"

definition ValidateProtocolClass :: "UDT \<Rightarrow> error option" where
  "ValidateProtocolClass u =
     (case ProtocolClass u of
        None \<Rightarrow> Some ErrProtocolClassNil
      | Some p \<Rightarrow>
          let class = GetProtocolClass p
          in if class \<noteq> 0 \<and> class \<noteq> 1 then Some (ErrInvalidProtocolClass class) else None)"

definition IsValidForProcessing :: "UDT \<Rightarrow> bool" where
  "IsValidForProcessing u = (ValidateProtocolClass u = None)"

text \<open>
  \<^verbatim>\<open>NewUDT\<close>. \<^verbatim>\<open>cdpa.MarshalLen()\<close> on a nil address dereferences it: a panic. The
  pointers are computed in \<^verbatim>\<open>uint8\<close>.
\<close>

definition NewUDT ::
  "int \<Rightarrow> bool \<Rightarrow> PartyAddress option \<Rightarrow> PartyAddress option \<Rightarrow> byte list \<Rightarrow> error + UDT" where
  "NewUDT pcls retOnErr cdpa cgpa data =
     (case cdpa of
        None \<Rightarrow> Inl ErrPanic
      | Some cd \<Rightarrow>
          (case cgpa of
             None \<Rightarrow> Inl ErrPanic
           | Some cg \<Rightarrow>
               let p1 = 3;
                   p2 = p1 + of_nat (PartyAddress_MarshalLen cd) - 1;
                   p3 = p2 + of_nat (PartyAddress_MarshalLen cg) - 1
               in Inr \<lparr>UDT.Type = MsgTypeUDT,
                       ProtocolClass = Some (NewProtocolClass pcls retOnErr),
                       SLS = 0,
                       CalledPartyAddress = cdpa,
                       CallingPartyAddress = cgpa,
                       Data = Some (NewData data),
                       ptr1 = p1, ptr2 = p2, ptr3 = p3\<rparr>))"

definition UDT_MarshalLen :: "UDT \<Rightarrow> nat" where
  "UDT_MarshalLen u =
     1 + 1 + 1 + 3
     + (if CalledPartyAddress u \<noteq> None then 1 + 11 else 0)
     + (if CallingPartyAddress u \<noteq> None then 1 + 11 else 0)
     + (case Data u of None \<Rightarrow> 0 | Some d \<Rightarrow> 1 + Data_MarshalLen d)"

text \<open>
  \<^verbatim>\<open>MarshalTo\<close> writes into \<open>b\<close> in place: the result is the error and \<open>b\<close> after the
  call. The buffer's capacity is its length, as for the buffer of \<^verbatim>\<open>MarshalBinary\<close>. A
  subslice expression \<^verbatim>\<open>b[lo:hi]\<close> with \<open>hi < lo\<close> or \<open>hi\<close> beyond the buffer panics, as does
  a call through a nil parameter.
\<close>

definition UDT_MarshalTo :: "UDT \<Rightarrow> byte list \<Rightarrow> error option \<times> byte list" where
  "UDT_MarshalTo u b =
     (if length b < 6 then (Some ErrUnexpectedEOF, b)
      else
        let b0 = b[0 := UDT.Type u]
        in (case ProtocolClass u of
              None \<Rightarrow> (Some ErrPanic, b0)
            | Some pcl \<Rightarrow>
               (case ProtocolClass_Write pcl (drop 1 b0) of
                  (m, Some err, s1) \<Rightarrow> (Some err, write_at b0 1 s1)
                | (m, None, s1) \<Rightarrow>
                    let b1 = write_at b0 1 s1;
                        n = 1 + m
                    in if length b \<le> n + 2 then (Some ErrPanic, b1)
                       else
                         let b2 = b1[n := ptr1 u, n + 1 := ptr2 u, n + 2 := ptr3 u];
                             n' = n + 3;
                             cdpaEnd = unat (ptr2 u + 3);
                             cgpaEnd = unat (ptr3 u + 4)
                         in if cdpaEnd < n' \<or> length b < cdpaEnd then (Some ErrPanic, b2)
                            else
                             (case CalledPartyAddress u of
                                None \<Rightarrow> (Some ErrPanic, b2)
                              | Some cd \<Rightarrow>
                                 (case PartyAddress_Write cd (subslice b2 n' cdpaEnd) of
                                    (_, Some err, s2) \<Rightarrow> (Some err, write_at b2 n' s2)
                                  | (_, None, s2) \<Rightarrow>
                                      let b3 = write_at b2 n' s2
                                      in if cgpaEnd < cdpaEnd \<or> length b < cgpaEnd
                                         then (Some ErrPanic, b3)
                                         else
                                          (case CallingPartyAddress u of
                                             None \<Rightarrow> (Some ErrPanic, b3)
                                           | Some cg \<Rightarrow>
                                              (case PartyAddress_Write cg
                                                      (subslice b3 cdpaEnd cgpaEnd) of
                                                 (_, Some err, s3) \<Rightarrow>
                                                   (Some err, write_at b3 cdpaEnd s3)
                                               | (_, None, s3) \<Rightarrow>
                                                   let b4 = write_at b3 cdpaEnd s3
                                                   in (case Data u of
                                                         None \<Rightarrow> (Some ErrPanic, b4)
                                                       | Some d \<Rightarrow>
                                                          (case Data_Write d (drop cgpaEnd b4) of
                                                             (_, Some err, s4) \<Rightarrow>
                                                               (Some err, write_at b4 cgpaEnd s4)
                                                           | (_, None, s4) \<Rightarrow>
                                                               (None, write_at b4 cgpaEnd s4))))))))))"

definition UDT_MarshalBinary :: "UDT \<Rightarrow> error + byte list" where
  "UDT_MarshalBinary u =
     (case UDT_MarshalTo u (replicate (UDT_MarshalLen u) 0) of
        (Some err, _) \<Rightarrow> Inl err
      | (None, b) \<Rightarrow> Inr b)"

text \<open>
  \<^verbatim>\<open>UnmarshalBinary\<close>, with the three sub-decoders it calls as parameters: the parsers of
  the Called and the Calling Party Address, which return the address (or nil) and the
  error, and \<^verbatim>\<open>Data.Read\<close> on a fresh \<^verbatim>\<open>&params.Data{}\<close>. The result is the error and the
  receiver after the call. \<^verbatim>\<open>offset\<close> is 1 throughout.
\<close>

definition UDT_UnmarshalBinary_with ::
  "(byte list \<Rightarrow> PartyAddress option \<times> error option) \<Rightarrow>
   (byte list \<Rightarrow> PartyAddress option \<times> error option) \<Rightarrow>
   (byte list \<Rightarrow> Data \<times> error option) \<Rightarrow>
   UDT \<Rightarrow> byte list \<Rightarrow> error option \<times> UDT" where
  "UDT_UnmarshalBinary_with parseCalled parseCalling readData u b =
     (let l = length b
      in if l \<le> 4 then (Some ErrUnexpectedEOF, u)
         else
           let u1 = u\<lparr>UDT.Type := b ! 0, ptr1 := b ! 1, ptr2 := b ! (1 + 1), ptr3 := b ! (1 + 2)\<rparr>;
               offsetPtr1 = 1 + unat (ptr1 u1)
           in if l < offsetPtr1 + 1 then (Some ErrUnexpectedEOF, u1)
              else
                let cdpaLen = unat (b ! offsetPtr1);
                    cdpaEnd = offsetPtr1 + cdpaLen + 1;
                    offsetPtr2 = cdpaEnd
                in if l < offsetPtr2 + 1 then (Some ErrUnexpectedEOF, u1)
                   else
                     let cgpaLen = unat (b ! offsetPtr2);
                         cgpaEnd = offsetPtr2 + cgpaLen + 1;
                         offsetPtr3 = cgpaEnd
                     in if l < offsetPtr3 + 1 then (Some ErrUnexpectedEOF, u1)
                        else
                          let dataLen = unat (b ! offsetPtr3);
                              dataEnd = offsetPtr3 + dataLen + 1
                          in if l < cdpaEnd \<or> l < cgpaEnd \<or> l < dataEnd
                             then (Some ErrUnexpectedEOF, u1)
                             else
                               (case parseCalled (subslice b offsetPtr1 cdpaEnd) of
                                  (cd, Some err) \<Rightarrow> (Some err, u1\<lparr>CalledPartyAddress := cd\<rparr>)
                                | (cd, None) \<Rightarrow>
                                   (case parseCalling (subslice b offsetPtr2 cgpaEnd) of
                                      (cg, Some err) \<Rightarrow>
                                        (Some err, u1\<lparr>CalledPartyAddress := cd,
                                                      CallingPartyAddress := cg\<rparr>)
                                    | (cg, None) \<Rightarrow>
                                       (case readData (subslice b offsetPtr3 dataEnd) of
                                          (d, Some err) \<Rightarrow>
                                            (Some err, u1\<lparr>CalledPartyAddress := cd,
                                                          CallingPartyAddress := cg,
                                                          Data := Some d\<rparr>)
                                        | (d, None) \<Rightarrow>
                                            (None, u1\<lparr>CalledPartyAddress := cd,
                                                      CallingPartyAddress := cg,
                                                      Data := Some d\<rparr>)))))"

definition UDT_UnmarshalBinary :: "UDT \<Rightarrow> byte list \<Rightarrow> error option \<times> UDT" where
  "UDT_UnmarshalBinary =
     UDT_UnmarshalBinary_with ParseCalledPartyAddress ParseCallingPartyAddress Data_Read"

section \<open>Subsystem state manager\<close>

type_synonym SSNState = "8 word"

definition SSNStateProhibited :: SSNState where "SSNStateProhibited = 0"
definition SSNStateAllowed :: SSNState where "SSNStateAllowed = 1"

type_synonym StateChangeReason = "8 word"

definition ReasonUserInitiated :: StateChangeReason where "ReasonUserInitiated = 1"
definition ReasonNetworkInitiated :: StateChangeReason where "ReasonNetworkInitiated = 2"
definition ReasonTestTimeout :: StateChangeReason where "ReasonTestTimeout = 3"
definition ReasonTestResponse :: StateChangeReason where "ReasonTestResponse = 4"

type_synonym BroadcastType = "8 word"

definition BroadcastSSA :: BroadcastType where "BroadcastSSA = 1"
definition BroadcastSSP :: BroadcastType where "BroadcastSSP = 2"

text \<open>
  \<^verbatim>\<open>time.Time\<close> and \<^verbatim>\<open>time.Duration\<close> are integers (nanoseconds); the value of
  \<^verbatim>\<open>time.Now()\<close> is an argument \<open>now\<close> of every operation that reads the clock. A
  \<^verbatim>\<open>*time.Timer\<close> is a handle or nil. The mutexes are left out: the operations are
  modelled one call at a time.
\<close>

record SSNEntry =
  SSN :: "8 word"
  PointCode :: "16 word"
  State :: SSNState
  IsLocal :: bool
  LastStateChange :: int
  TestTimer :: "nat option"
  TestInterval :: int
  TestRetries :: int
  MaxTestRetries :: int

definition IsAllowed :: "SSNEntry \<Rightarrow> bool" where
  "IsAllowed s = (State s = SSNStateAllowed)"

definition IsProhibited :: "SSNEntry \<Rightarrow> bool" where
  "IsProhibited s = (State s = SSNStateProhibited)"

definition MarkAllowed :: "int \<Rightarrow> SSNEntry \<Rightarrow> SSNEntry" where
  "MarkAllowed now s = s\<lparr>State := SSNStateAllowed, LastStateChange := now\<rparr>"

definition MarkProhibited :: "int \<Rightarrow> SSNEntry \<Rightarrow> SSNEntry" where
  "MarkProhibited now s = s\<lparr>State := SSNStateProhibited, LastStateChange := now\<rparr>"

text \<open>
  The map of the manager holds pointers \<^verbatim>\<open>*SSNEntry\<close>, and \<^verbatim>\<open>AddEntry\<close> and
  \<^verbatim>\<open>GetEntry\<close> return such pointers: an entry is an address into \<open>heap\<close>, the store of
  the \<^verbatim>\<open>SSNEntry\<close> objects, and \<open>next_ptr\<close> is the first address not yet allocated. A
  callback slot holds a function of the environment or nil: the model keeps whether the
  slot is set, and an operation returns the calls it makes through the slots, in order.
\<close>

type_synonym entry_ptr = nat

datatype callback_call =
    StateChangeCall entry_ptr SSNState StateChangeReason
  | BroadcastCall BroadcastType entry_ptr

record SSNStateManager =
  heap :: "entry_ptr \<Rightarrow> SSNEntry"
  next_ptr :: entry_ptr
  entries :: "string \<rightharpoonup> entry_ptr"
  DefaultTestInterval :: int
  MaxTestInterval :: int
  MaxTestRetries :: int
  OnStateChange :: bool
  OnBroadcast :: bool

definition Second :: int where
  "Second = 1000000000"

definition SSNEntry_zero :: SSNEntry where
  "SSNEntry_zero = \<lparr>SSN = 0, PointCode = 0, State = 0, IsLocal = False, LastStateChange = 0,
                     TestTimer = None, TestInterval = 0, TestRetries = 0,
                     SSNEntry.MaxTestRetries = 0\<rparr>"

definition NewSSNStateManager :: SSNStateManager where
  "NewSSNStateManager =
     \<lparr>heap = (\<lambda>_. SSNEntry_zero), next_ptr = 0, entries = Map.empty,
      DefaultTestInterval = 30 * Second, MaxTestInterval = 300 * Second,
      SSNStateManager.MaxTestRetries = 5, OnStateChange = False, OnBroadcast = False\<rparr>"

text \<open>The decimal digits of \<^verbatim>\<open>%d\<close>.\<close>

fun decimal :: "nat \<Rightarrow> string" where
  "decimal n =
     (if n < 10 then [''0123456789'' ! n]
      else decimal (n div 10) @ [''0123456789'' ! (n mod 10)])"

declare decimal.simps [simp del]

definition getKey :: "16 word \<Rightarrow> 8 word \<Rightarrow> string" where
  "getKey pc ssn = decimal (unat pc) @ '':'' @ decimal (unat ssn)"

definition GetEntry :: "SSNStateManager \<Rightarrow> 16 word \<Rightarrow> 8 word \<Rightarrow> entry_ptr option" where
  "GetEntry sm pc ssn = entries sm (getKey pc ssn)"

text \<open>\<^verbatim>\<open>AddEntry\<close> returns the pointer to the entry it allocates, and the manager.\<close>

definition AddEntry ::
  "SSNStateManager \<Rightarrow> int \<Rightarrow> 16 word \<Rightarrow> 8 word \<Rightarrow> bool \<Rightarrow> entry_ptr \<times> SSNStateManager" where
  "AddEntry sm now pc ssn isLocal =
     (let key = getKey pc ssn;
          entry = \<lparr>SSN = ssn, PointCode = pc, State = SSNStateProhibited, IsLocal = isLocal,
                   LastStateChange = now, TestTimer = None,
                   TestInterval = DefaultTestInterval sm, TestRetries = 0,
                   SSNEntry.MaxTestRetries = SSNStateManager.MaxTestRetries sm\<rparr>;
          p = next_ptr sm
      in (p, sm\<lparr>heap := (heap sm)(p := entry), next_ptr := p + 1,
                 entries := (entries sm)(key \<mapsto> p)\<rparr>))"

text \<open>
  \<^verbatim>\<open>HandleUserInService\<close> returns the error, the manager after the call, and the calls
  made through the callback slots.
\<close>

definition HandleUserInService ::
  "SSNStateManager \<Rightarrow> int \<Rightarrow> 16 word \<Rightarrow> 8 word \<Rightarrow>
   error option \<times> SSNStateManager \<times> callback_call list" where
  "HandleUserInService sm now pc ssn =
     (case GetEntry sm pc ssn of
        None \<Rightarrow> (Some (ErrEntryNotFound pc ssn), sm, [])
      | Some entry \<Rightarrow>
          if \<not> IsLocal (heap sm entry) then (Some ErrRemoteSubsystem, sm, [])
          else if IsProhibited (heap sm entry)
          then
            let sm1 = sm\<lparr>heap := (heap sm)(entry := MarkAllowed now (heap sm entry))\<rparr>;
                calls1 = (if OnStateChange sm
                          then [StateChangeCall entry SSNStateAllowed ReasonUserInitiated]
                          else []);
                calls2 = (if OnBroadcast sm then [BroadcastCall BroadcastSSA entry] else [])
            in (None, sm1, calls1 @ calls2)
          else (None, sm, []))"

section \<open>The scenarios of the specification\<close>

text \<open>An address of 11 octets: address indicator, subsystem number 8 and a global title.\<close>

definition example_address :: PartyAddress where
  "example_address =
     \<lparr>addr = [0x12, 0x08, 0x00, 0x12, 0x04, 0x21, 0x43, 0x65, 0x87, 0x09, 0x21]\<rparr>"

text \<open>
  Scenario S3: the UDT of class 1 with return-on-error, both addresses the example
  address and the data \<open>AA BB CC\<close>, as \<^verbatim>\<open>NewUDT\<close> builds it, and the 35 octets
  \<^verbatim>\<open>MarshalBinary\<close> returns for it.
\<close>

definition example_udt :: UDT where
  "example_udt =
     \<lparr>UDT.Type = 9, ProtocolClass = Some \<lparr>pc_value = 0x81\<rparr>, SLS = 0,
      CalledPartyAddress = Some example_address,
      CallingPartyAddress = Some example_address,
      Data = Some \<lparr>data_value = [0xAA, 0xBB, 0xCC]\<rparr>,
      ptr1 = 3, ptr2 = 14, ptr3 = 25\<rparr>"

definition example_frame :: "byte list" where
  "example_frame =
     [0x09, 0x81, 0x03, 0x0E, 0x19,
      0x0B, 0x12, 0x08, 0x00, 0x12, 0x04, 0x21, 0x43, 0x65, 0x87, 0x09, 0x21,
      0x0B, 0x12, 0x08, 0x00, 0x12, 0x04, 0x21, 0x43, 0x65, 0x87, 0x09, 0x21,
      0x03, 0xAA, 0xBB, 0xCC, 0x00, 0x00]"

text \<open>
  The same message in the layout \<^verbatim>\<open>UnmarshalBinary\<close> reads: the type, the three
  pointers at offsets 1 to 3, and the three parameters from offset 4 on.
\<close>

definition example_pointer_frame :: "byte list" where
  "example_pointer_frame =
     [0x09, 0x03, 0x0E, 0x19,
      0x0B, 0x12, 0x08, 0x00, 0x12, 0x04, 0x21, 0x43, 0x65, 0x87, 0x09, 0x21,
      0x0B, 0x12, 0x08, 0x00, 0x12, 0x04, 0x21, 0x43, 0x65, 0x87, 0x09, 0x21,
      0x03, 0xAA, 0xBB, 0xCC]"

text \<open>
  A manager with one local subsystem, point code 1 and SSN 2, registered at time 100 and
  put in service at time 200.
\<close>

definition example_manager :: SSNStateManager where
  "example_manager =
     fst (snd (HandleUserInService (snd (AddEntry NewSSNStateManager 100 1 2 True)) 200 1 2))"

section \<open>Properties of the SCMG codec\<close>

lemma le16_join_split:
  "(ucast (ucast v :: byte) :: 16 word) OR push_bit 8 (ucast (ucast (drop_bit 8 v) :: byte)) = v"
  by (rule bit_word_eqI) (auto simp: bit_simps)

lemma replicate_5: "replicate 5 x = [x, x, x, x, x]"
  by (simp add: numeral_eq_Suc)

lemma replicate_6: "replicate 6 x = [x, x, x, x, x, x]"
  by (simp add: numeral_eq_Suc)

text \<open>The octets \<^verbatim>\<open>MarshalBinary\<close> returns, written out.\<close>

lemma SCMG_MarshalBinary_bytes:
  "SCMG_MarshalBinary s =
     Inr ([SCMG.Type s, AffectedSSN s, ucast (AffectedPC s), ucast (drop_bit 8 (AffectedPC s)),
           SubsystemMultiplicityIndicator s]
          @ (if SCMG.Type s = SCMGTypeSSC then [SCCPCongestionLevel s] else []))"
  by (simp add: SCMG_MarshalBinary_def SCMG_MarshalTo_def SCMG_MarshalLen_def PutUint16_def
      replicate_5 replicate_6)

text \<open>
  Decoding the encoded octets into any receiver \<open>r\<close>: every field is the encoded one,
  except that the congestion level of a message other than SSC is the receiver's.
\<close>

lemma SCMG_UnmarshalBinary_MarshalBinary:
  assumes "SCMG_MarshalBinary v = Inr b"
  shows "SCMG_UnmarshalBinary r b =
           (None, v\<lparr>SCCPCongestionLevel :=
                      (if SCMG.Type v = SCMGTypeSSC then SCCPCongestionLevel v
                       else SCCPCongestionLevel r)\<rparr>)"
  using assms
  by (cases "SCMG.Type v = SCMGTypeSSC")
     (auto simp: SCMG_MarshalBinary_bytes SCMG_UnmarshalBinary_def Uint16_def le16_join_split)

text \<open>
  C4. SCMG round trip: for every SCMG value \<open>v\<close> whose congestion level is zero unless
  its type is SSC, \<^verbatim>\<open>MarshalBinary\<close> succeeds and \<^verbatim>\<open>ParseSCMG\<close> (that is,
  \<^verbatim>\<open>UnmarshalBinary\<close> on a fresh SCMG) gives back exactly \<open>v\<close>. For SSC the congestion
  level is the sixth octet and is restored into any receiver; for the other types the
  encoding has five octets, none of them the congestion level, which decodes as zero.
\<close>

theorem SCMG_round_trip:
  assumes "SCMG.Type v \<noteq> SCMGTypeSSC \<longrightarrow> SCCPCongestionLevel v = 0"
  shows "\<exists>b. SCMG_MarshalBinary v = Inr b \<and> ParseSCMG b = Inr v
            \<and> (SCMG.Type v = SCMGTypeSSC \<longrightarrow>
                 length b = 6 \<and> b ! 5 = SCCPCongestionLevel v
                 \<and> (\<forall>r. SCMG_UnmarshalBinary r b = (None, v)))
            \<and> (SCMG.Type v \<noteq> SCMGTypeSSC \<longrightarrow>
                 length b = 5
                 \<and> (\<forall>scl. SCMG_MarshalBinary (v\<lparr>SCCPCongestionLevel := scl\<rparr>) = Inr b))"
proof -
  obtain b where b: "SCMG_MarshalBinary v = Inr b"
    by (simp add: SCMG_MarshalBinary_bytes)
  have dec: "SCMG_UnmarshalBinary r b =
               (None, v\<lparr>SCCPCongestionLevel :=
                          (if SCMG.Type v = SCMGTypeSSC then SCCPCongestionLevel v
                           else SCCPCongestionLevel r)\<rparr>)" for r
    by (rule SCMG_UnmarshalBinary_MarshalBinary [OF b])
  have "ParseSCMG b = Inr v"
    using assms by (simp add: ParseSCMG_def dec) (simp add: SCMG_zero_def NewSCMG_def)
  moreover have "SCMG.Type v = SCMGTypeSSC \<longrightarrow>
                   length b = 6 \<and> b ! 5 = SCCPCongestionLevel v
                   \<and> (\<forall>r. SCMG_UnmarshalBinary r b = (None, v))"
    using b by (auto simp: dec SCMG_MarshalBinary_bytes)
  moreover have "SCMG.Type v \<noteq> SCMGTypeSSC \<longrightarrow>
                   length b = 5
                   \<and> (\<forall>scl. SCMG_MarshalBinary (v\<lparr>SCCPCongestionLevel := scl\<rparr>) = Inr b)"
    using b by (auto simp: SCMG_MarshalBinary_bytes)
  ultimately show ?thesis using b by blast
qed

theorem SCMG_round_trip_witness:
  "SCMG_MarshalBinary (NewSCMG SCMGTypeSSA 8 0x1234 0 0) = Inr [0x01, 0x08, 0x34, 0x12, 0x00]
   \<and> ParseSCMG [0x01, 0x08, 0x34, 0x12, 0x00] = Inr (NewSCMG SCMGTypeSSA 8 0x1234 0 0)
   \<and> SCMG_MarshalBinary (NewSCMG SCMGTypeSSC 8 0x1234 0 5)
        = Inr [0x06, 0x08, 0x34, 0x12, 0x00, 0x05]
   \<and> ParseSCMG [0x06, 0x08, 0x34, 0x12, 0x00, 0x05] = Inr (NewSCMG SCMGTypeSSC 8 0x1234 0 5)"
proof -
  let ?v = "NewSCMG SCMGTypeSSA 8 0x1234 0 0"
  let ?w = "NewSCMG SCMGTypeSSC 8 0x1234 0 5"
  have enc_v: "SCMG_MarshalBinary ?v = Inr [0x01, 0x08, 0x34, 0x12, 0x00]"
    by (simp add: SCMG_MarshalBinary_bytes NewSCMG_def SCMGTypeSSA_def SCMGTypeSSC_def)
  have enc_w: "SCMG_MarshalBinary ?w = Inr [0x06, 0x08, 0x34, 0x12, 0x00, 0x05]"
    by (simp add: SCMG_MarshalBinary_bytes NewSCMG_def SCMGTypeSSC_def)
  have "SCMG.Type ?v \<noteq> SCMGTypeSSC \<longrightarrow> SCCPCongestionLevel ?v = 0"
    by (simp add: NewSCMG_def)
  from SCMG_round_trip [OF this] obtain b
    where b: "SCMG_MarshalBinary ?v = Inr b" "ParseSCMG b = Inr ?v"
    by blast
  have "SCMG.Type ?w \<noteq> SCMGTypeSSC \<longrightarrow> SCCPCongestionLevel ?w = 0"
    by (simp add: NewSCMG_def)
  from SCMG_round_trip [OF this] obtain c
    where c: "SCMG_MarshalBinary ?w = Inr c" "ParseSCMG c = Inr ?w"
    by blast
  from enc_v enc_w b c show ?thesis by simp
qed

text \<open>When \<^verbatim>\<open>UnmarshalBinary\<close> succeeds, and what it returns otherwise.\<close>

lemma SCMG_UnmarshalBinary_error:
  "fst (SCMG_UnmarshalBinary r b) =
     (if length b < 5 \<or> (b ! 0 = SCMGTypeSSC \<and> length b < 6) then Some ErrUnexpectedEOF
      else None)"
  by (simp add: SCMG_UnmarshalBinary_def Let_def)

text \<open>
  C5. SCMG wire length and truncation: \<^verbatim>\<open>MarshalLen\<close> is 6 for SSC and 5 for every other
  type, and it is the length of the octets \<^verbatim>\<open>MarshalBinary\<close> returns; \<^verbatim>\<open>MarshalTo\<close>
  into a shorter buffer fails with \<^verbatim>\<open>io.ErrUnexpectedEOF\<close>. Decoding fewer than 5
  octets fails with \<^verbatim>\<open>io.ErrUnexpectedEOF\<close>, decoding 5 or more octets of a type other
  than SSC succeeds, and decoding exactly 5 octets whose first is SSC fails with
  \<^verbatim>\<open>io.ErrUnexpectedEOF\<close>.
\<close>

theorem SCMG_wire_length:
  "SCMG_MarshalLen s = (if SCMG.Type s = SCMGTypeSSC then 6 else 5)
   \<and> (\<exists>b. SCMG_MarshalBinary s = Inr b \<and> length b = SCMG_MarshalLen s)
   \<and> (\<forall>b. length b < SCMG_MarshalLen s \<longrightarrow> SCMG_MarshalTo s b = (Some ErrUnexpectedEOF, b))
   \<and> (\<forall>r b. length b < 5 \<longrightarrow> SCMG_UnmarshalBinary r b = (Some ErrUnexpectedEOF, r))
   \<and> (\<forall>r b. 5 \<le> length b \<and> b ! 0 \<noteq> SCMGTypeSSC \<longrightarrow> fst (SCMG_UnmarshalBinary r b) = None)
   \<and> (\<forall>r b. length b = 5 \<and> b ! 0 = SCMGTypeSSC \<longrightarrow>
          fst (SCMG_UnmarshalBinary r b) = Some ErrUnexpectedEOF
          \<and> ParseSCMG b = Inl ErrUnexpectedEOF)"
proof -
  have "SCMG_MarshalLen s = (if SCMG.Type s = SCMGTypeSSC then 6 else 5)"
    by (simp add: SCMG_MarshalLen_def)
  moreover have "\<exists>b. SCMG_MarshalBinary s = Inr b \<and> length b = SCMG_MarshalLen s"
    by (simp add: SCMG_MarshalBinary_bytes SCMG_MarshalLen_def)
  moreover have "\<forall>b. length b < SCMG_MarshalLen s \<longrightarrow>
                   SCMG_MarshalTo s b = (Some ErrUnexpectedEOF, b)"
    by (simp add: SCMG_MarshalTo_def)
  moreover have "\<forall>r b. length b < 5 \<longrightarrow> SCMG_UnmarshalBinary r b = (Some ErrUnexpectedEOF, r)"
    by (simp add: SCMG_UnmarshalBinary_def)
  moreover have "\<forall>r b. 5 \<le> length b \<and> b ! 0 \<noteq> SCMGTypeSSC \<longrightarrow>
                   fst (SCMG_UnmarshalBinary r b) = None"
    by (simp add: SCMG_UnmarshalBinary_error)
  moreover have "\<forall>r b. length b = 5 \<and> b ! 0 = SCMGTypeSSC \<longrightarrow>
                   fst (SCMG_UnmarshalBinary r b) = Some ErrUnexpectedEOF
                   \<and> ParseSCMG b = Inl ErrUnexpectedEOF"
    by (simp add: SCMG_UnmarshalBinary_error ParseSCMG_def SCMG_UnmarshalBinary_def)
  ultimately show ?thesis by blast
qed

theorem SCMG_wire_length_witness:
  "SCMG_MarshalLen (NewSCMG SCMGTypeSSC 8 0x1234 0 5) = 6
   \<and> SCMG_MarshalBinary (NewSCMG SCMGTypeSSC 8 0x1234 0 5)
        = Inr [0x06, 0x08, 0x34, 0x12, 0x00, 0x05]
   \<and> length [0x06, 0x08, 0x34, 0x12, 0x00 :: byte] = 5
   \<and> [0x06, 0x08, 0x34, 0x12, 0x00 :: byte] ! 0 = SCMGTypeSSC
   \<and> ParseSCMG [0x06, 0x08, 0x34, 0x12, 0x00] = Inl ErrUnexpectedEOF
   \<and> length [0x06, 0x08, 0x34, 0x12 :: byte] < 5
   \<and> SCMG_UnmarshalBinary SCMG_zero [0x06, 0x08, 0x34, 0x12] = (Some ErrUnexpectedEOF, SCMG_zero)
   \<and> [0x01, 0x08, 0x34, 0x12, 0x00 :: byte] ! 0 \<noteq> SCMGTypeSSC
   \<and> fst (SCMG_UnmarshalBinary SCMG_zero [0x01, 0x08, 0x34, 0x12, 0x00]) = None"
proof -
  let ?w = "NewSCMG SCMGTypeSSC 8 0x1234 0 5"
  have enc: "SCMG_MarshalBinary ?w = Inr [0x06, 0x08, 0x34, 0x12, 0x00, 0x05]"
    by (simp add: SCMG_MarshalBinary_bytes NewSCMG_def SCMGTypeSSC_def)
  have ssc: "length [0x06, 0x08, 0x34, 0x12, 0x00 :: byte] = 5
             \<and> [0x06, 0x08, 0x34, 0x12, 0x00 :: byte] ! 0 = SCMGTypeSSC"
    by (simp add: SCMGTypeSSC_def)
  have short: "length [0x06, 0x08, 0x34, 0x12 :: byte] < 5"
    by simp
  have ssa: "5 \<le> length [0x01, 0x08, 0x34, 0x12, 0x00 :: byte]
             \<and> [0x01, 0x08, 0x34, 0x12, 0x00 :: byte] ! 0 \<noteq> SCMGTypeSSC"
    by (simp add: SCMGTypeSSC_def)
  note wl = SCMG_wire_length [of ?w]
  from wl have "SCMG_MarshalLen ?w = 6"
    by (simp add: NewSCMG_def)
  moreover from wl ssc have "ParseSCMG [0x06, 0x08, 0x34, 0x12, 0x00] = Inl ErrUnexpectedEOF"
    by blast
  moreover from wl short
  have "SCMG_UnmarshalBinary SCMG_zero [0x06, 0x08, 0x34, 0x12] = (Some ErrUnexpectedEOF, SCMG_zero)"
    by blast
  moreover from wl ssa
  have "fst (SCMG_UnmarshalBinary SCMG_zero [0x01, 0x08, 0x34, 0x12, 0x00]) = None"
    by blast
  ultimately show ?thesis using enc ssc short ssa by simp
qed

text \<open>
  C6. SCMG point-code endianness: in every buffer that \<^verbatim>\<open>MarshalTo\<close> fills and in the
  octets \<^verbatim>\<open>MarshalBinary\<close> returns, octet 2 is the low and octet 3 the high octet of
  the affected point code, so that \<open>buf[2] | (buf[3] << 8)\<close> is the point code; and the SSA
  message with SSN 8 and point code 0x1234 encodes to exactly \<open>01 08 34 12 00\<close>.
\<close>

theorem SCMG_point_code_little_endian:
  "(\<forall>b b'. SCMG_MarshalTo s b = (None, b') \<longrightarrow> Uint16 b' 2 = AffectedPC s)
   \<and> (\<forall>b. SCMG_MarshalBinary s = Inr b \<longrightarrow>
          (ucast (b ! 2) :: 16 word) OR push_bit 8 (ucast (b ! 3)) = AffectedPC s)
   \<and> SCMG_MarshalBinary (NewSCMG SCMGTypeSSA 8 0x1234 0 0) = Inr [0x01, 0x08, 0x34, 0x12, 0x00]"
proof -
  have "Uint16 b' 2 = AffectedPC s" if "SCMG_MarshalTo s b = (None, b')" for b b'
  proof -
    from that have len: "5 \<le> length b"
      by (auto simp: SCMG_MarshalTo_def SCMG_MarshalLen_def split: if_splits)
    from that len have "b' ! 2 = ucast (AffectedPC s) \<and> b' ! 3 = ucast (drop_bit 8 (AffectedPC s))"
      by (auto simp: SCMG_MarshalTo_def PutUint16_def Let_def split: if_splits)
    then show ?thesis
      by (simp add: Uint16_def le16_join_split)
  qed
  moreover have "(ucast (b ! 2) :: 16 word) OR push_bit 8 (ucast (b ! 3)) = AffectedPC s"
    if "SCMG_MarshalBinary s = Inr b" for b
    using that by (auto simp: SCMG_MarshalBinary_bytes le16_join_split)
  moreover have "SCMG_MarshalBinary (NewSCMG SCMGTypeSSA 8 0x1234 0 0)
                   = Inr [0x01, 0x08, 0x34, 0x12, 0x00]"
    by (simp add: SCMG_MarshalBinary_bytes NewSCMG_def SCMGTypeSSA_def SCMGTypeSSC_def)
  ultimately show ?thesis by blast
qed

theorem SCMG_point_code_little_endian_witness:
  "SCMG_MarshalTo (NewSCMG SCMGTypeSSP 7 0xBEEF 1 0) [0xFF, 0xFF, 0xFF, 0xFF, 0xFF, 0xFF, 0xFF]
     = (None, [0x02, 0x07, 0xEF, 0xBE, 0x01, 0xFF, 0xFF])
   \<and> Uint16 [0x02, 0x07, 0xEF, 0xBE, 0x01, 0xFF, 0xFF] 2 = 0xBEEF
   \<and> SCMG_MarshalBinary (NewSCMG SCMGTypeSSP 7 0xBEEF 1 0) = Inr [0x02, 0x07, 0xEF, 0xBE, 0x01]
   \<and> (ucast ([0x02, 0x07, 0xEF, 0xBE, 0x01 :: byte] ! 2) :: 16 word)
        OR push_bit 8 (ucast ([0x02, 0x07, 0xEF, 0xBE, 0x01 :: byte] ! 3)) = 0xBEEF"
proof -
  let ?s = "NewSCMG SCMGTypeSSP 7 0xBEEF 1 0"
  have to: "SCMG_MarshalTo ?s [0xFF, 0xFF, 0xFF, 0xFF, 0xFF, 0xFF, 0xFF]
              = (None, [0x02, 0x07, 0xEF, 0xBE, 0x01, 0xFF, 0xFF])"
    by (simp add: SCMG_MarshalTo_def SCMG_MarshalLen_def PutUint16_def NewSCMG_def
        SCMGTypeSSP_def SCMGTypeSSC_def)
  have bin: "SCMG_MarshalBinary ?s = Inr [0x02, 0x07, 0xEF, 0xBE, 0x01]"
    by (simp add: SCMG_MarshalBinary_bytes NewSCMG_def SCMGTypeSSP_def SCMGTypeSSC_def)
  have pc: "AffectedPC ?s = 0xBEEF"
    by (simp add: NewSCMG_def)
  note le = SCMG_point_code_little_endian [of ?s]
  from le to pc have "Uint16 [0x02, 0x07, 0xEF, 0xBE, 0x01, 0xFF, 0xFF] 2 = 0xBEEF"
    by metis
  moreover from le bin pc
  have "(ucast ([0x02, 0x07, 0xEF, 0xBE, 0x01 :: byte] ! 2) :: 16 word)
          OR push_bit 8 (ucast ([0x02, 0x07, 0xEF, 0xBE, 0x01 :: byte] ! 3)) = 0xBEEF"
    by metis
  ultimately show ?thesis using to bin by blast
qed

text \<open>
  C10. SCMG decoding is not atomic on error: on a buffer of exactly 5 octets whose first
  octet is SSC, \<^verbatim>\<open>UnmarshalBinary\<close> returns \<^verbatim>\<open>io.ErrUnexpectedEOF\<close>, and the receiver
  it leaves behind has Type, AffectedSSN, AffectedPC and SubsystemMultiplicityIndicator
  read from the buffer and its SCCPCongestionLevel untouched.
\<close>

theorem SCMG_UnmarshalBinary_not_atomic:
  assumes "length b = 5" and "b ! 0 = SCMGTypeSSC"
  shows "SCMG_UnmarshalBinary r b =
           (Some ErrUnexpectedEOF,
            \<lparr>SCMG.Type = SCMGTypeSSC, AffectedSSN = b ! 1, AffectedPC = Uint16 b 2,
             SubsystemMultiplicityIndicator = b ! 4,
             SCCPCongestionLevel = SCCPCongestionLevel r\<rparr>)"
  using assms by (simp add: SCMG_UnmarshalBinary_def)

theorem SCMG_UnmarshalBinary_not_atomic_witness:
  "length [0x06, 0x08, 0x34, 0x12, 0x03 :: byte] = 5
   \<and> [0x06, 0x08, 0x34, 0x12, 0x03 :: byte] ! 0 = SCMGTypeSSC
   \<and> SCMG_UnmarshalBinary (NewSCMG SCMGTypeSSA 1 2 0 9) [0x06, 0x08, 0x34, 0x12, 0x03]
       = (Some ErrUnexpectedEOF, NewSCMG SCMGTypeSSC 8 0x1234 3 9)
   \<and> NewSCMG SCMGTypeSSC 8 0x1234 3 9 \<noteq> NewSCMG SCMGTypeSSA 1 2 0 9"
proof -
  have h: "length [0x06, 0x08, 0x34, 0x12, 0x03 :: byte] = 5"
          "[0x06, 0x08, 0x34, 0x12, 0x03 :: byte] ! 0 = SCMGTypeSSC"
    by (simp_all add: SCMGTypeSSC_def)
  from SCMG_UnmarshalBinary_not_atomic [OF h, of "NewSCMG SCMGTypeSSA 1 2 0 9"] h
  show ?thesis
    by (simp add: NewSCMG_def Uint16_def SCMGTypeSSC_def SCMGTypeSSA_def)
qed

section \<open>Properties of the subsystem state manager\<close>

lemma getKey_example: "getKey 4660 8 = ''4660:8''"
  by (simp add: getKey_def decimal.simps)

lemma example_manager_eq:
  "example_manager =
     \<lparr>heap = (\<lambda>_. SSNEntry_zero)
         (0 := \<lparr>SSN = 2, PointCode = 1, State = SSNStateAllowed, IsLocal = True,
                LastStateChange = 200, TestTimer = None, TestInterval = 30 * Second,
                TestRetries = 0, SSNEntry.MaxTestRetries = 5\<rparr>),
      next_ptr = 1, entries = [getKey 1 2 \<mapsto> 0],
      DefaultTestInterval = 30 * Second, MaxTestInterval = 300 * Second,
      SSNStateManager.MaxTestRetries = 5, OnStateChange = False, OnBroadcast = False\<rparr>"
  by (simp add: example_manager_def HandleUserInService_def AddEntry_def NewSSNStateManager_def
      GetEntry_def IsProhibited_def MarkAllowed_def Let_def)

text \<open>
  C7, as the claim states it, fails: in the example manager the key (1, 2) has the entry
  at address 0, in service; \<^verbatim>\<open>AddEntry\<close> for the same key returns another entry, at
  address 1 and prohibited, and the key now leads to that one.
\<close>

theorem AddEntry_returns_existing_counterexample:
  "GetEntry example_manager 1 2 = Some 0
   \<and> State (heap example_manager 0) = SSNStateAllowed
   \<and> fst (AddEntry example_manager 300 1 2 True) \<noteq> 0
   \<and> GetEntry (snd (AddEntry example_manager 300 1 2 True)) 1 2 \<noteq> Some 0
   \<and> State (heap (snd (AddEntry example_manager 300 1 2 True))
              (fst (AddEntry example_manager 300 1 2 True)))
       \<noteq> State (heap example_manager 0)"
  by (simp add: example_manager_eq AddEntry_def GetEntry_def Let_def
      SSNStateAllowed_def SSNStateProhibited_def)

text \<open>
  C7, amended. For every manager state, \<^verbatim>\<open>AddEntry(pc, ssn, isLocal)\<close> allocates a new
  entry, in state Prohibited and with the manager's default test interval and maximum
  retries, binds the key of (pc, ssn) to it and returns it, whether or not the key had an
  entry: the other keys and the other entry objects are unchanged, and an entry that the
  key had before is replaced in the map by the new one (the old object itself is left as
  it was).
\<close>

theorem AddEntry_inserts_new_entry:
  assumes "AddEntry sm now pc ssn isLocal = (p, sm')"
  shows "p = next_ptr sm
         \<and> GetEntry sm' pc ssn = Some p
         \<and> heap sm' p =
             \<lparr>SSN = ssn, PointCode = pc, State = SSNStateProhibited, IsLocal = isLocal,
              LastStateChange = now, TestTimer = None,
              TestInterval = DefaultTestInterval sm, TestRetries = 0,
              SSNEntry.MaxTestRetries = SSNStateManager.MaxTestRetries sm\<rparr>
         \<and> (\<forall>q. q \<noteq> p \<longrightarrow> heap sm' q = heap sm q)
         \<and> (\<forall>k. k \<noteq> getKey pc ssn \<longrightarrow> entries sm' k = entries sm k)
         \<and> (\<forall>q. GetEntry sm pc ssn = Some q \<and> q < next_ptr sm \<longrightarrow>
                p \<noteq> q \<and> heap sm' q = heap sm q)"
  using assms by (auto simp: AddEntry_def GetEntry_def Let_def)

theorem AddEntry_inserts_new_entry_witness:
  "GetEntry NewSSNStateManager 1 2 = None
   \<and> fst (AddEntry NewSSNStateManager 100 1 2 False) = 0
   \<and> GetEntry (snd (AddEntry NewSSNStateManager 100 1 2 False)) 1 2 = Some 0
   \<and> heap (snd (AddEntry NewSSNStateManager 100 1 2 False)) 0 =
        \<lparr>SSN = 2, PointCode = 1, State = SSNStateProhibited, IsLocal = False,
         LastStateChange = 100, TestTimer = None, TestInterval = 30 * Second,
         TestRetries = 0, SSNEntry.MaxTestRetries = 5\<rparr>
   \<and> GetEntry example_manager 1 2 = Some 0
   \<and> 0 < next_ptr example_manager
   \<and> fst (AddEntry example_manager 300 1 2 True) = 1
   \<and> GetEntry (snd (AddEntry example_manager 300 1 2 True)) 1 2 = Some 1
   \<and> State (heap (snd (AddEntry example_manager 300 1 2 True)) 1) = SSNStateProhibited
   \<and> heap (snd (AddEntry example_manager 300 1 2 True)) 0 = heap example_manager 0"
proof -
  have new: "GetEntry NewSSNStateManager 1 2 = None"
    by (simp add: GetEntry_def NewSSNStateManager_def)
  have old: "GetEntry example_manager 1 2 = Some 0 \<and> 0 < next_ptr example_manager"
    by (simp add: GetEntry_def example_manager_eq)
  have a: "AddEntry NewSSNStateManager 100 1 2 False
             = (fst (AddEntry NewSSNStateManager 100 1 2 False),
                snd (AddEntry NewSSNStateManager 100 1 2 False))"
    by simp
  have b: "AddEntry example_manager 300 1 2 True
             = (fst (AddEntry example_manager 300 1 2 True),
                snd (AddEntry example_manager 300 1 2 True))"
    by simp
  have na: "next_ptr NewSSNStateManager = 0" "next_ptr example_manager = 1"
    by (simp_all add: NewSSNStateManager_def example_manager_eq)
  have cfg: "DefaultTestInterval NewSSNStateManager = 30 * Second"
            "SSNStateManager.MaxTestRetries NewSSNStateManager = 5"
    by (simp_all add: NewSSNStateManager_def)
  from AddEntry_inserts_new_entry [OF a] na cfg
  have 1: "fst (AddEntry NewSSNStateManager 100 1 2 False) = 0
           \<and> GetEntry (snd (AddEntry NewSSNStateManager 100 1 2 False)) 1 2 = Some 0
           \<and> heap (snd (AddEntry NewSSNStateManager 100 1 2 False)) 0 =
                \<lparr>SSN = 2, PointCode = 1, State = SSNStateProhibited, IsLocal = False,
                 LastStateChange = 100, TestTimer = None, TestInterval = 30 * Second,
                 TestRetries = 0, SSNEntry.MaxTestRetries = 5\<rparr>"
    by metis
  note r = AddEntry_inserts_new_entry [OF b]
  from r na have p: "fst (AddEntry example_manager 300 1 2 True) = 1"
    by simp
  from r have g: "GetEntry (snd (AddEntry example_manager 300 1 2 True)) 1 2
                    = Some (fst (AddEntry example_manager 300 1 2 True))"
    by blast
  from r have "heap (snd (AddEntry example_manager 300 1 2 True))
                 (fst (AddEntry example_manager 300 1 2 True)) =
               \<lparr>SSN = 2, PointCode = 1, State = SSNStateProhibited, IsLocal = True,
                LastStateChange = 300, TestTimer = None,
                TestInterval = DefaultTestInterval example_manager, TestRetries = 0,
                SSNEntry.MaxTestRetries = SSNStateManager.MaxTestRetries example_manager\<rparr>"
    by blast
  then have h: "State (heap (snd (AddEntry example_manager 300 1 2 True))
                         (fst (AddEntry example_manager 300 1 2 True))) = SSNStateProhibited"
    by simp
  from r
  have q: "\<forall>q. GetEntry example_manager 1 2 = Some q \<and> q < next_ptr example_manager \<longrightarrow>
                heap (snd (AddEntry example_manager 300 1 2 True)) q = heap example_manager q"
    by blast
  from q old have "heap (snd (AddEntry example_manager 300 1 2 True)) 0 = heap example_manager 0"
    by blast
  with p g h
  have 2: "fst (AddEntry example_manager 300 1 2 True) = 1
           \<and> GetEntry (snd (AddEntry example_manager 300 1 2 True)) 1 2 = Some 1
           \<and> State (heap (snd (AddEntry example_manager 300 1 2 True)) 1) = SSNStateProhibited
           \<and> heap (snd (AddEntry example_manager 300 1 2 True)) 0 = heap example_manager 0"
    by simp
  from new old 1 2 show ?thesis by simp
qed

text \<open>
  C8. \<^verbatim>\<open>HandleUserInService(pc, ssn)\<close>: with no entry for the key it returns the
  entry-not-found error, and with an entry that is not local the remote-subsystem error,
  the manager unchanged and no callback called in both cases. With a local entry that is
  Prohibited it marks the entry Allowed at the current time, calls
  \<^verbatim>\<open>OnStateChange(entry, Allowed, UserInitiated)\<close> and then
  \<^verbatim>\<open>OnBroadcast(SSA, entry)\<close>, each if its slot is set, and returns no error. With a
  local entry that is already Allowed it changes nothing, calls nothing and returns no
  error.
\<close>

theorem HandleUserInService_semantics:
  "(GetEntry sm pc ssn = None \<longrightarrow>
      HandleUserInService sm now pc ssn = (Some (ErrEntryNotFound pc ssn), sm, []))
   \<and> (\<forall>e. GetEntry sm pc ssn = Some e \<and> \<not> IsLocal (heap sm e) \<longrightarrow>
          HandleUserInService sm now pc ssn = (Some ErrRemoteSubsystem, sm, []))
   \<and> (\<forall>e. GetEntry sm pc ssn = Some e \<and> IsLocal (heap sm e)
            \<and> State (heap sm e) = SSNStateProhibited \<longrightarrow>
          HandleUserInService sm now pc ssn =
            (None,
             sm\<lparr>heap := (heap sm)(e := (heap sm e)\<lparr>State := SSNStateAllowed,
                                                   LastStateChange := now\<rparr>)\<rparr>,
             (if OnStateChange sm
              then [StateChangeCall e SSNStateAllowed ReasonUserInitiated] else [])
             @ (if OnBroadcast sm then [BroadcastCall BroadcastSSA e] else [])))
   \<and> (\<forall>e. GetEntry sm pc ssn = Some e \<and> IsLocal (heap sm e)
            \<and> State (heap sm e) = SSNStateAllowed \<longrightarrow>
          HandleUserInService sm now pc ssn = (None, sm, []))"
  by (simp add: HandleUserInService_def IsProhibited_def MarkAllowed_def Let_def
      SSNStateAllowed_def SSNStateProhibited_def)

theorem HandleUserInService_semantics_witness:
  "HandleUserInService NewSSNStateManager 200 1 2
     = (Some (ErrEntryNotFound 1 2), NewSSNStateManager, [])
   \<and> HandleUserInService (snd (AddEntry NewSSNStateManager 100 1 2 False)) 200 1 2
     = (Some ErrRemoteSubsystem, snd (AddEntry NewSSNStateManager 100 1 2 False), [])
   \<and> fst (HandleUserInService
            (snd (AddEntry (NewSSNStateManager\<lparr>OnStateChange := True, OnBroadcast := True\<rparr>)
                    100 1 2 True)) 200 1 2) = None
   \<and> State (heap (fst (snd (HandleUserInService
            (snd (AddEntry (NewSSNStateManager\<lparr>OnStateChange := True, OnBroadcast := True\<rparr>)
                    100 1 2 True)) 200 1 2))) 0) = SSNStateAllowed
   \<and> snd (snd (HandleUserInService
            (snd (AddEntry (NewSSNStateManager\<lparr>OnStateChange := True, OnBroadcast := True\<rparr>)
                    100 1 2 True)) 200 1 2))
       = [StateChangeCall 0 SSNStateAllowed ReasonUserInitiated, BroadcastCall BroadcastSSA 0]
   \<and> HandleUserInService example_manager 300 1 2 = (None, example_manager, [])"
proof -
  let ?remote = "snd (AddEntry NewSSNStateManager 100 1 2 False)"
  let ?local = "snd (AddEntry (NewSSNStateManager\<lparr>OnStateChange := True, OnBroadcast := True\<rparr>)
                       100 1 2 True)"
  have none: "GetEntry NewSSNStateManager 1 2 = None"
    by (simp add: GetEntry_def NewSSNStateManager_def)
  have remote: "GetEntry ?remote 1 2 = Some 0 \<and> \<not> IsLocal (heap ?remote 0)"
    by (simp add: GetEntry_def AddEntry_def NewSSNStateManager_def Let_def)
  have local: "GetEntry ?local 1 2 = Some 0 \<and> IsLocal (heap ?local 0)
               \<and> State (heap ?local 0) = SSNStateProhibited"
    by (simp add: GetEntry_def AddEntry_def NewSSNStateManager_def Let_def)
  have slots: "OnStateChange ?local \<and> OnBroadcast ?local"
    by (simp add: AddEntry_def NewSSNStateManager_def Let_def)
  have allowed: "GetEntry example_manager 1 2 = Some 0 \<and> IsLocal (heap example_manager 0)
                 \<and> State (heap example_manager 0) = SSNStateAllowed"
    by (simp add: GetEntry_def example_manager_eq)
  from HandleUserInService_semantics [of NewSSNStateManager 1 2 200] none
  have 1: "HandleUserInService NewSSNStateManager 200 1 2
             = (Some (ErrEntryNotFound 1 2), NewSSNStateManager, [])"
    by blast
  from HandleUserInService_semantics [of ?remote 1 2 200] remote
  have 2: "HandleUserInService ?remote 200 1 2 = (Some ErrRemoteSubsystem, ?remote, [])"
    by blast
  from HandleUserInService_semantics [of ?local 1 2 200] local
  have "HandleUserInService ?local 200 1 2 =
          (None,
           ?local\<lparr>heap := (heap ?local)(0 := (heap ?local 0)\<lparr>State := SSNStateAllowed,
                                                             LastStateChange := 200\<rparr>)\<rparr>,
           (if OnStateChange ?local
            then [StateChangeCall 0 SSNStateAllowed ReasonUserInitiated] else [])
           @ (if OnBroadcast ?local then [BroadcastCall BroadcastSSA 0] else []))"
    by blast
  with slots have 3: "fst (HandleUserInService ?local 200 1 2) = None
       \<and> State (heap (fst (snd (HandleUserInService ?local 200 1 2))) 0) = SSNStateAllowed
       \<and> snd (snd (HandleUserInService ?local 200 1 2))
           = [StateChangeCall 0 SSNStateAllowed ReasonUserInitiated,
              BroadcastCall BroadcastSSA 0]"
    by simp
  from HandleUserInService_semantics [of example_manager 1 2 300] allowed
  have 4: "HandleUserInService example_manager 300 1 2 = (None, example_manager, [])"
    by blast
  from 1 2 3 4 show ?thesis by blast
qed

section \<open>Properties of the UDT decoder\<close>

text \<open>
  \<^verbatim>\<open>UnmarshalBinary\<close> on a buffer of more than 4 octets, with its offsets named: \<open>o1\<close>
  is \<^verbatim>\<open>offsetPtr1\<close>, \<open>e1\<close> is \<^verbatim>\<open>cdpaEnd\<close> and \<^verbatim>\<open>offsetPtr2\<close>, \<open>e2\<close> is
  \<^verbatim>\<open>cgpaEnd\<close> and \<^verbatim>\<open>offsetPtr3\<close>, \<open>e3\<close> is \<^verbatim>\<open>dataEnd\<close>.
\<close>

lemma UDT_UnmarshalBinary_with_offsets:
  assumes "4 < length b"
    and "u1 = u\<lparr>UDT.Type := b ! 0, ptr1 := b ! 1, ptr2 := b ! 2, ptr3 := b ! 3\<rparr>"
    and "o1 = 1 + unat (b ! 1)"
    and "e1 = o1 + unat (b ! o1) + 1"
    and "e2 = e1 + unat (b ! e1) + 1"
    and "e3 = e2 + unat (b ! e2) + 1"
  shows "UDT_UnmarshalBinary_with parseCalled parseCalling readData u b =
           (if length b < o1 + 1 \<or> length b < e1 + 1 \<or> length b < e2 + 1 \<or> length b < e3
            then (Some ErrUnexpectedEOF, u1)
            else
              (case parseCalled (subslice b o1 e1) of
                 (cd, Some err) \<Rightarrow> (Some err, u1\<lparr>CalledPartyAddress := cd\<rparr>)
               | (cd, None) \<Rightarrow>
                  (case parseCalling (subslice b e1 e2) of
                     (cg, Some err) \<Rightarrow>
                       (Some err, u1\<lparr>CalledPartyAddress := cd, CallingPartyAddress := cg\<rparr>)
                   | (cg, None) \<Rightarrow>
                      (case readData (subslice b e2 e3) of
                         (d, Some err) \<Rightarrow>
                           (Some err, u1\<lparr>CalledPartyAddress := cd, CallingPartyAddress := cg,
                                         Data := Some d\<rparr>)
                       | (d, None) \<Rightarrow>
                           (None, u1\<lparr>CalledPartyAddress := cd, CallingPartyAddress := cg,
                                     Data := Some d\<rparr>)))))"
proof -
  have two: "(1::nat) + 1 = 2" and three: "(1::nat) + 2 = 3"
    by simp_all
  show ?thesis
    unfolding UDT_UnmarshalBinary_with_def Let_def two three
      assms(2) assms(3) assms(4) assms(5) assms(6)
    using assms(1) by auto
qed

text \<open>
  Decoding a buffer whose octets 2 and 3 are overwritten, when the octet at offset 1 is at
  least 3: no octet that the decoder reads to find or to cut out a parameter has changed.
\<close>

lemma UDT_UnmarshalBinary_with_update:
  assumes "3 \<le> unat (b ! 1)" and "4 < length b"
  shows "UDT_UnmarshalBinary_with parseCalled parseCalling readData u (b[2 := x, 3 := y]) =
           (case UDT_UnmarshalBinary_with parseCalled parseCalling readData u b of
              (err, r) \<Rightarrow> (err, r\<lparr>ptr2 := x, ptr3 := y\<rparr>))"
proof -
  let ?b' = "b[2 := x, 3 := y]"
  define o1 where "o1 = 1 + unat (b ! 1)"
  define e1 where "e1 = o1 + unat (b ! o1) + 1"
  define e2 where "e2 = e1 + unat (b ! e1) + 1"
  define e3 where "e3 = e2 + unat (b ! e2) + 1"
  define u1 where "u1 = u\<lparr>UDT.Type := b ! 0, ptr1 := b ! 1, ptr2 := b ! 2, ptr3 := b ! 3\<rparr>"
  define u1' where "u1' = u\<lparr>UDT.Type := ?b' ! 0, ptr1 := ?b' ! 1, ptr2 := ?b' ! 2, ptr3 := ?b' ! 3\<rparr>"
  have ge: "4 \<le> o1" "4 \<le> e1" "4 \<le> e2"
    using assms(1) by (simp_all add: o1_def e1_def e2_def)
  have rd: "?b' ! i = b ! i" if "4 \<le> i" for i
    using that by simp
  have sl: "subslice ?b' lo hi = subslice b lo hi" if "4 \<le> lo" for lo hi
    using that by (simp add: subslice_def)
  have len: "4 < length ?b'" "length ?b' = length b"
    using assms(2) by simp_all
  have o1': "o1 = 1 + unat (?b' ! 1)"
    by (simp add: o1_def)
  have e1': "e1 = o1 + unat (?b' ! o1) + 1"
    by (simp only: rd [OF ge(1)] e1_def)
  have e2': "e2 = e1 + unat (?b' ! e1) + 1"
    by (simp only: rd [OF ge(2)] e2_def)
  have e3': "e3 = e2 + unat (?b' ! e2) + 1"
    by (simp only: rd [OF ge(3)] e3_def)
  have u1'_eq: "u1' = u1\<lparr>ptr2 := x, ptr3 := y\<rparr>"
    using assms(2) by (simp add: u1_def u1'_def)
  note L = UDT_UnmarshalBinary_with_offsets [OF len(1) u1'_def o1' e1' e2' e3',
      of parseCalled parseCalling readData]
  note R = UDT_UnmarshalBinary_with_offsets [OF assms(2) u1_def o1_def e1_def e2_def e3_def,
      of parseCalled parseCalling readData]
  show ?thesis
    unfolding L R len(2) sl [OF ge(1)] sl [OF ge(2)] sl [OF ge(3)] u1'_eq
    by (simp split: prod.split option.split)
qed

text \<open>\<^verbatim>\<open>UnmarshalBinary\<close> never assigns the protocol class or the SLS of its receiver.\<close>

lemma UDT_UnmarshalBinary_with_keeps_ProtocolClass:
  "ProtocolClass (snd (UDT_UnmarshalBinary_with parseCalled parseCalling readData u b))
     = ProtocolClass u"
proof (cases "4 < length b")
  case True
  show ?thesis
    unfolding UDT_UnmarshalBinary_with_offsets [OF True refl refl refl refl refl]
    by (simp split: prod.split option.split)
next
  case False
  then show ?thesis by (simp add: UDT_UnmarshalBinary_with_def)
qed

text \<open>With the sub-decoders of the specification, the only error of
  \<^verbatim>\<open>UnmarshalBinary\<close> is \<^verbatim>\<open>io.ErrUnexpectedEOF\<close>.\<close>

lemma UDT_UnmarshalBinary_errors:
  "fst (UDT_UnmarshalBinary u b) = None \<or> fst (UDT_UnmarshalBinary u b) = Some ErrUnexpectedEOF"
proof (cases "4 < length b")
  case True
  show ?thesis
    unfolding UDT_UnmarshalBinary_def
      UDT_UnmarshalBinary_with_offsets [OF True refl refl refl refl refl]
    by (simp add: ParseCalledPartyAddress_def ParseCallingPartyAddress_def
        ParsePartyAddress_def Data_Read_def)
next
  case False
  then show ?thesis by (simp add: UDT_UnmarshalBinary_def UDT_UnmarshalBinary_with_def)
qed

text \<open>
  C9, as the claim states it, fails: the two buffers below differ only in the octet at
  offset 2, both decode without error, and the Called Party Address decoded from the
  first is empty while the one decoded from the second has one octet. Their octet at
  offset 1 is 1, so the Called Party Address starts at offset 2.
\<close>

theorem UDT_UnmarshalBinary_ptr_octets_counterexample:
  "[9, 1, 0, 0, 0, 0, 0 :: byte][2 := 1] = [9, 1, 1, 0, 0, 0, 0]
   \<and> fst (UDT_UnmarshalBinary UDT_zero [9, 1, 0, 0, 0, 0, 0]) = None
   \<and> fst (UDT_UnmarshalBinary UDT_zero [9, 1, 1, 0, 0, 0, 0]) = None
   \<and> CalledPartyAddress (snd (UDT_UnmarshalBinary UDT_zero [9, 1, 0, 0, 0, 0, 0]))
       = Some \<lparr>addr = []\<rparr>
   \<and> CalledPartyAddress (snd (UDT_UnmarshalBinary UDT_zero [9, 1, 1, 0, 0, 0, 0]))
       = Some \<lparr>addr = [0]\<rparr>"
  by code_simp

text \<open>
  C9, amended. When the octet at offset 1 (\<^verbatim>\<open>ptr1\<close>) is at least 3, so that the Called
  Party Address starts at offset 4 or later, \<^verbatim>\<open>UnmarshalBinary\<close> does not depend on the
  octets at offsets 2 and 3 for locating parameters: for any two buffers that differ only
  in these two octets, and whatever the sub-decoders, the decode returns the same error
  or success and leaves the same receiver, with the same CalledPartyAddress,
  CallingPartyAddress and Data, up to the fields \<^verbatim>\<open>ptr2\<close> and \<^verbatim>\<open>ptr3\<close>.
\<close>

theorem UDT_UnmarshalBinary_ignores_ptr2_ptr3:
  assumes len: "length b' = length b"
    and agree: "\<forall>i<length b. i \<noteq> 2 \<and> i \<noteq> 3 \<longrightarrow> b' ! i = b ! i"
    and p1: "3 \<le> unat (b ! 1)"
  shows "fst (UDT_UnmarshalBinary_with parseCalled parseCalling readData u b')
           = fst (UDT_UnmarshalBinary_with parseCalled parseCalling readData u b)
         \<and> CalledPartyAddress (snd (UDT_UnmarshalBinary_with parseCalled parseCalling readData u b'))
           = CalledPartyAddress (snd (UDT_UnmarshalBinary_with parseCalled parseCalling readData u b))
         \<and> CallingPartyAddress (snd (UDT_UnmarshalBinary_with parseCalled parseCalling readData u b'))
           = CallingPartyAddress (snd (UDT_UnmarshalBinary_with parseCalled parseCalling readData u b))
         \<and> Data (snd (UDT_UnmarshalBinary_with parseCalled parseCalling readData u b'))
           = Data (snd (UDT_UnmarshalBinary_with parseCalled parseCalling readData u b))
         \<and> snd (UDT_UnmarshalBinary_with parseCalled parseCalling readData u b')
           = (snd (UDT_UnmarshalBinary_with parseCalled parseCalling readData u b))
               \<lparr>ptr2 := ptr2 (snd (UDT_UnmarshalBinary_with parseCalled parseCalling readData u b')),
                ptr3 := ptr3 (snd (UDT_UnmarshalBinary_with parseCalled parseCalling readData u b'))\<rparr>"
proof (cases "4 < length b")
  case True
  have "b' = b[2 := b' ! 2, 3 := b' ! 3]"
  proof (rule nth_equalityI)
    show "length b' = length (b[2 := b' ! 2, 3 := b' ! 3])"
      by (simp add: len)
    fix i assume i: "i < length b'"
    show "b' ! i = b[2 := b' ! 2, 3 := b' ! 3] ! i"
    proof (cases "i = 2 \<or> i = 3")
      case True
      with i len show ?thesis
        by (auto simp: nth_list_update)
    next
      case False
      with agree i len have "b' ! i = b ! i"
        by simp
      with False show ?thesis
        by simp
    qed
  qed
  then have "UDT_UnmarshalBinary_with parseCalled parseCalling readData u b' =
               (case UDT_UnmarshalBinary_with parseCalled parseCalling readData u b of
                  (err, r) \<Rightarrow> (err, r\<lparr>ptr2 := b' ! 2, ptr3 := b' ! 3\<rparr>))"
    using UDT_UnmarshalBinary_with_update [OF p1 True, of parseCalled parseCalling readData u
        "b' ! 2" "b' ! 3"]
    by simp
  then show ?thesis
    by (simp split: prod.split)
next
  case False
  with len show ?thesis
    by (simp add: UDT_UnmarshalBinary_with_def)
qed

lemma example_pointer_frame_decodes:
  "UDT_UnmarshalBinary UDT_zero example_pointer_frame =
     (None, \<lparr>UDT.Type = 9, ProtocolClass = None, SLS = 0,
             CalledPartyAddress = Some example_address,
             CallingPartyAddress = Some example_address,
             Data = Some \<lparr>data_value = [0xAA, 0xBB, 0xCC]\<rparr>,
             ptr1 = 3, ptr2 = 14, ptr3 = 25\<rparr>)"
  by code_simp

theorem UDT_UnmarshalBinary_ignores_ptr2_ptr3_witness:
  "length (example_pointer_frame[2 := 0, 3 := 0xFF]) = length example_pointer_frame
   \<and> example_pointer_frame[2 := 0, 3 := 0xFF] ! 2 \<noteq> example_pointer_frame ! 2
   \<and> example_pointer_frame[2 := 0, 3 := 0xFF] ! 3 \<noteq> example_pointer_frame ! 3
   \<and> 3 \<le> unat (example_pointer_frame ! 1)
   \<and> fst (UDT_UnmarshalBinary UDT_zero (example_pointer_frame[2 := 0, 3 := 0xFF])) = None
   \<and> CalledPartyAddress
        (snd (UDT_UnmarshalBinary UDT_zero (example_pointer_frame[2 := 0, 3 := 0xFF])))
       = Some example_address
   \<and> CallingPartyAddress
        (snd (UDT_UnmarshalBinary UDT_zero (example_pointer_frame[2 := 0, 3 := 0xFF])))
       = Some example_address
   \<and> Data (snd (UDT_UnmarshalBinary UDT_zero (example_pointer_frame[2 := 0, 3 := 0xFF])))
       = Some \<lparr>data_value = [0xAA, 0xBB, 0xCC]\<rparr>"
proof -
  let ?b = example_pointer_frame
  let ?b' = "example_pointer_frame[2 := 0, 3 := 0xFF]"
  have h1: "length ?b' = length ?b"
    by simp
  have h2: "\<forall>i<length ?b. i \<noteq> 2 \<and> i \<noteq> 3 \<longrightarrow> ?b' ! i = ?b ! i"
    by simp
  have h3: "3 \<le> unat (?b ! 1)"
    by (simp add: example_pointer_frame_def)
  note t = UDT_UnmarshalBinary_ignores_ptr2_ptr3 [OF h1 h2 h3,
      of ParseCalledPartyAddress ParseCallingPartyAddress Data_Read UDT_zero,
      folded UDT_UnmarshalBinary_def, unfolded example_pointer_frame_decodes]
  have d: "?b' ! 2 \<noteq> ?b ! 2" "?b' ! 3 \<noteq> ?b ! 3"
    by (simp_all add: example_pointer_frame_def)
  from t h1 h3 d show ?thesis
    by simp
qed

text \<open>
  C1 fails on the code. The UDT of scenario S3 has a valid protocol class and the
  pointers of \<^verbatim>\<open>NewUDT\<close>; \<^verbatim>\<open>MarshalBinary\<close> encodes it with the protocol class octet
  0x81 at offset 1, and \<^verbatim>\<open>UnmarshalBinary\<close> reads that octet as \<^verbatim>\<open>ptr1\<close>, looks for the
  Called Party Address at offset 130 and returns \<^verbatim>\<open>io.ErrUnexpectedEOF\<close>. With class 0
  and no return-on-error the octet is 0: the decode succeeds, with an empty Called Party
  Address, the pointer octets as Calling Party Address and no protocol class.
\<close>

theorem UDT_round_trip_fails:
  "NewUDT 1 True (Some example_address) (Some example_address) [0xAA, 0xBB, 0xCC]
     = Inr example_udt
   \<and> ValidateProtocolClass example_udt = None
   \<and> UDT_MarshalBinary example_udt = Inr example_frame
   \<and> UDT_UnmarshalBinary UDT_zero example_frame
       = (Some ErrUnexpectedEOF, UDT_zero\<lparr>UDT.Type := 9, ptr1 := 0x81, ptr2 := 3, ptr3 := 14\<rparr>)
   \<and> NewUDT 0 False (Some example_address) (Some example_address) [0xAA, 0xBB, 0xCC]
       = Inr (example_udt\<lparr>ProtocolClass := Some \<lparr>pc_value = 0\<rparr>\<rparr>)
   \<and> UDT_MarshalBinary (example_udt\<lparr>ProtocolClass := Some \<lparr>pc_value = 0\<rparr>\<rparr>)
       = Inr (example_frame[1 := 0])
   \<and> UDT_UnmarshalBinary UDT_zero (example_frame[1 := 0])
       = (None, \<lparr>UDT.Type = 9, ProtocolClass = None, SLS = 0,
                 CalledPartyAddress = Some \<lparr>addr = []\<rparr>,
                 CallingPartyAddress = Some \<lparr>addr = [0x0E, 0x19, 0x0B]\<rparr>,
                 Data = Some \<lparr>data_value =
                   [0x08, 0x00, 0x12, 0x04, 0x21, 0x43, 0x65, 0x87, 0x09, 0x21,
                    0x0B, 0x12, 0x08, 0x00, 0x12, 0x04, 0x21, 0x43]\<rparr>,
                 ptr1 = 0, ptr2 = 3, ptr3 = 14\<rparr>)"
  by code_simp

text \<open>
  C2 fails on the code. The frame that \<^verbatim>\<open>MarshalBinary\<close> produces for protocol class 2
  is a valid UDT frame except for its class octet \<open>buf[1] = 2\<close>, which
  \<^verbatim>\<open>ValidateProtocolClass\<close> rejects on the encoded value; \<^verbatim>\<open>UnmarshalBinary\<close> never
  calls the validation: it reads the octet as \<^verbatim>\<open>ptr1\<close> and returns
  \<^verbatim>\<open>io.ErrUnexpectedEOF\<close>. For a frame of class 2 with a Calling Party Address of two
  octets and two octets of data, it returns no error at all.
\<close>

theorem UDT_UnmarshalBinary_ignores_protocol_class:
  "NewUDT 2 False (Some example_address) (Some example_address) [0xAA, 0xBB, 0xCC]
     = Inr (example_udt\<lparr>ProtocolClass := Some \<lparr>pc_value = 2\<rparr>\<rparr>)
   \<and> ValidateProtocolClass (example_udt\<lparr>ProtocolClass := Some \<lparr>pc_value = 2\<rparr>\<rparr>)
       = Some (ErrInvalidProtocolClass 2)
   \<and> UDT_MarshalBinary (example_udt\<lparr>ProtocolClass := Some \<lparr>pc_value = 2\<rparr>\<rparr>)
       = Inr (example_frame[1 := 2])
   \<and> example_frame[1 := 2] ! 1 = 2
   \<and> UDT_UnmarshalBinary UDT_zero (example_frame[1 := 2])
       = (Some ErrUnexpectedEOF, UDT_zero\<lparr>UDT.Type := 9, ptr1 := 2, ptr2 := 3, ptr3 := 14\<rparr>)
   \<and> NewUDT 2 False (Some example_address) (Some \<lparr>addr = [0x02, 0x08]\<rparr>) [0x01, 0x07]
       = Inr (example_udt\<lparr>ProtocolClass := Some \<lparr>pc_value = 2\<rparr>,
                          CallingPartyAddress := Some \<lparr>addr = [0x02, 0x08]\<rparr>,
                          Data := Some \<lparr>data_value = [0x01, 0x07]\<rparr>, ptr3 := 16\<rparr>)
   \<and> UDT_MarshalBinary (example_udt\<lparr>ProtocolClass := Some \<lparr>pc_value = 2\<rparr>,
                          CallingPartyAddress := Some \<lparr>addr = [0x02, 0x08]\<rparr>,
                          Data := Some \<lparr>data_value = [0x01, 0x07]\<rparr>, ptr3 := 16\<rparr>)
       = Inr ([0x09, 0x02, 0x03, 0x0E, 0x10,
               0x0B, 0x12, 0x08, 0x00, 0x12, 0x04, 0x21, 0x43, 0x65, 0x87, 0x09, 0x21,
               0x02, 0x02, 0x08, 0x02, 0x01, 0x07] @ replicate 11 0)
   \<and> fst (UDT_UnmarshalBinary UDT_zero
            ([0x09, 0x02, 0x03, 0x0E, 0x10,
              0x0B, 0x12, 0x08, 0x00, 0x12, 0x04, 0x21, 0x43, 0x65, 0x87, 0x09, 0x21,
              0x02, 0x02, 0x08, 0x02, 0x01, 0x07] @ replicate 11 0)) = None"
  by code_simp

section \<open>Properties of the UDT encoder\<close>

lemma length_subslice: "hi \<le> length b \<Longrightarrow> length (subslice b lo hi) = hi - lo"
  by (simp add: subslice_def)

lemma length_write_at: "lo + length w \<le> length b \<Longrightarrow> length (write_at b lo w) = length b"
  by (simp add: write_at_def)

lemma write_at_subslice_id: "lo \<le> hi \<Longrightarrow> hi \<le> length b \<Longrightarrow> write_at b lo (subslice b lo hi) = b"
  by (simp add: write_at_def subslice_def min_def)
     (metis append_take_drop_id drop_drop add.commute le_add_diff_inverse)

lemma write_at_drop_id: "lo \<le> length b \<Longrightarrow> write_at b lo (drop lo b) = b"
  by (simp add: write_at_def)

lemma write_at_write_at_subslice:
  assumes "lo + length w \<le> hi" and "hi \<le> length b"
  shows "write_at b lo (write_at (subslice b lo hi) 0 w) = write_at b lo w"
proof -
  define k where "k = hi - (lo + length w)"
  have hi: "hi = lo + length w + k"
    using assms by (simp add: k_def)
  have "take k (drop (lo + length w) b) @ drop (lo + length w + k) b = drop (lo + length w) b"
    by (metis append_take_drop_id drop_drop add.commute)
  then show ?thesis
    using assms unfolding hi by (simp add: write_at_def subslice_def drop_take min_def ac_simps)
qed

lemma write_at_write_at_drop:
  "lo + length w \<le> length b \<Longrightarrow> write_at b lo (write_at (drop lo b) 0 w) = write_at b lo w"
  by (simp add: write_at_def add.commute)

lemma write_at_append: "length p = lo \<Longrightarrow> write_at (p @ r) lo w = p @ w @ drop (length w) r"
  by (simp add: write_at_def)

lemma list5: "5 \<le> length b \<Longrightarrow> \<exists>a0 a1 a2 a3 a4 r. b = a0 # a1 # a2 # a3 # a4 # r"
  by (auto simp: numeral_eq_Suc Suc_le_length_iff)

lemma update_0_to_4:
  assumes "5 \<le> length b"
  shows "b[0 := x0, 1 := x1, 2 := x2, 3 := x3, 4 := x4] = [x0, x1, x2, x3, x4] @ drop 5 b"
proof -
  from list5 [OF assms] obtain a0 a1 a2 a3 a4 r where "b = a0 # a1 # a2 # a3 # a4 # r"
    by blast
  then show ?thesis by simp
qed

lemma write_at_update_1:
  assumes "5 \<le> length b"
  shows "write_at (b[0 := t]) (Suc 0) ((drop (Suc 0) b)[0 := v]) = b[0 := t, Suc 0 := v]"
proof -
  from list5 [OF assms] obtain a0 a1 a2 a3 a4 r where "b = a0 # a1 # a2 # a3 # a4 # r"
    by blast
  then show ?thesis by (simp add: write_at_def)
qed

lemma ProtocolClass_Write_1:
  "1 \<le> length s \<Longrightarrow> ProtocolClass_Write pcl s = (1, None, s[0 := pc_value pcl])"
  by (cases s) (simp_all add: ProtocolClass_Write_def)

text \<open>
  \<^verbatim>\<open>MarshalTo\<close> on a buffer of at least 6 octets and a UDT without nil parameters, with
  its offsets named: \<open>b2\<close> is the buffer after the five fixed octets are written, \<open>e1\<close>
  is \<^verbatim>\<open>cdpaEnd\<close>, \<open>e2\<close> is \<^verbatim>\<open>cgpaEnd\<close>, and \<open>wcd\<close>, \<open>wcg\<close>, \<open>wd\<close> are the octets the
  three parameters write.
\<close>

lemma UDT_MarshalTo_offsets:
  assumes len: "6 \<le> length b"
    and flds: "ProtocolClass u = Some pcl" "CalledPartyAddress u = Some cd"
              "CallingPartyAddress u = Some cg" "Data u = Some d"
    and b2: "b2 = b[0 := UDT.Type u, 1 := pc_value pcl, 2 := ptr1 u, 3 := ptr2 u, 4 := ptr3 u]"
    and e1: "e1 = unat (ptr2 u + 3)"
    and e2: "e2 = unat (ptr3 u + 4)"
    and wcd: "wcd = of_nat (length (addr cd)) # addr cd"
    and wcg: "wcg = of_nat (length (addr cg)) # addr cg"
    and wd: "wd = of_nat (length (data_value d)) # data_value d"
  shows "UDT_MarshalTo u b =
     (if e1 < 5 \<or> length b < e1 then (Some ErrPanic, b2)
      else if e1 - 5 < length wcd then (Some ErrUnexpectedEOF, b2)
      else if e2 < e1 \<or> length b < e2 then (Some ErrPanic, write_at b2 5 wcd)
      else if e2 - e1 < length wcg then (Some ErrUnexpectedEOF, write_at b2 5 wcd)
      else if length b - e2 < length wd
           then (Some ErrUnexpectedEOF, write_at (write_at b2 5 wcd) e1 wcg)
      else (None, write_at (write_at (write_at b2 5 wcd) e1 wcg) e2 wd))"
proof -
  have four: "Suc (Suc (Suc (Suc 0))) = 4"
    by simp
  have lb2: "length b2 = length b"
    by (simp add: b2)
  have head: "UDT_MarshalTo u b =
     (if e1 < 5 \<or> length b < e1 then (Some ErrPanic, b2)
      else
       (case PartyAddress_Write cd (subslice b2 5 e1) of
          (_, Some err, s2) \<Rightarrow> (Some err, write_at b2 5 s2)
        | (_, None, s2) \<Rightarrow>
            let b3 = write_at b2 5 s2
            in if e2 < e1 \<or> length b < e2 then (Some ErrPanic, b3)
               else
                (case PartyAddress_Write cg (subslice b3 e1 e2) of
                   (_, Some err, s3) \<Rightarrow> (Some err, write_at b3 e1 s3)
                 | (_, None, s3) \<Rightarrow>
                     let b4 = write_at b3 e1 s3
                     in (case Data_Write d (drop e2 b4) of
                           (_, Some err, s4) \<Rightarrow> (Some err, write_at b4 e2 s4)
                         | (_, None, s4) \<Rightarrow> (None, write_at b4 e2 s4)))))"
    unfolding UDT_MarshalTo_def flds Let_def b2 e1 e2
    using len
    by (simp add: ProtocolClass_Write_1 write_at_update_1 numeral_2_eq_2 [symmetric]
        numeral_3_eq_3 [symmetric] four
        cong del: if_weak_cong option.case_cong_weak prod.case_cong_weak)
  show ?thesis
  proof (cases "e1 < 5 \<or> length b < e1")
    case True
    then show ?thesis by (simp add: head)
  next
    case c1: False
    then have r0: "5 \<le> e1" "e1 \<le> length b"
      by arith+
    show ?thesis
    proof (cases "e1 - 5 < length wcd")
      case True
      have f1: "PartyAddress_Write cd (subslice b2 5 e1)
                  = (0, Some ErrUnexpectedEOF, subslice b2 5 e1)"
        using True r0 by (simp add: PartyAddress_Write_def PartyAddress_MarshalLen_def wcd
            length_subslice lb2)
      have id1: "write_at b2 5 (subslice b2 5 e1) = b2"
        using r0 by (simp add: write_at_subslice_id lb2)
      from c1 True show ?thesis
        by (simp add: head f1 id1)
    next
      case c2: False
      with r0 have r1: "5 + length wcd \<le> e1"
        by arith
      have w1: "PartyAddress_Write cd (subslice b2 5 e1)
                  = (length wcd, None, write_at (subslice b2 5 e1) 0 wcd)"
        using c2 r0 by (simp add: PartyAddress_Write_def PartyAddress_MarshalLen_def wcd
            length_subslice lb2)
      have b3: "write_at b2 5 (write_at (subslice b2 5 e1) 0 wcd) = write_at b2 5 wcd"
        using r0 r1 by (intro write_at_write_at_subslice) (simp_all add: lb2)
      have lb3: "length (write_at b2 5 wcd) = length b"
        using r0 r1 by (simp add: length_write_at lb2)
      show ?thesis
      proof (cases "e2 < e1 \<or> length b < e2")
        case True
        with c1 c2 show ?thesis
          by (simp add: head w1 b3 Let_def)
      next
        case c3: False
        then have r2: "e1 \<le> e2" "e2 \<le> length b"
          by arith+
        show ?thesis
        proof (cases "e2 - e1 < length wcg")
          case True
          have f2: "PartyAddress_Write cg (subslice (write_at b2 5 wcd) e1 e2)
                      = (0, Some ErrUnexpectedEOF, subslice (write_at b2 5 wcd) e1 e2)"
            using True r2 by (simp add: PartyAddress_Write_def PartyAddress_MarshalLen_def wcg
                length_subslice lb3)
          have id2: "write_at (write_at b2 5 wcd) e1 (subslice (write_at b2 5 wcd) e1 e2)
                       = write_at b2 5 wcd"
            using r2 by (simp add: write_at_subslice_id lb3)
          from c1 c2 c3 True show ?thesis
            by (simp add: head w1 b3 f2 id2 Let_def)
        next
          case c4: False
          with r2 have r3: "e1 + length wcg \<le> e2"
            by arith
          have w2: "PartyAddress_Write cg (subslice (write_at b2 5 wcd) e1 e2)
                      = (length wcg, None, write_at (subslice (write_at b2 5 wcd) e1 e2) 0 wcg)"
            using c4 r2 by (simp add: PartyAddress_Write_def PartyAddress_MarshalLen_def wcg
                length_subslice lb3)
          have b4: "write_at (write_at b2 5 wcd) e1
                      (write_at (subslice (write_at b2 5 wcd) e1 e2) 0 wcg)
                      = write_at (write_at b2 5 wcd) e1 wcg"
            using r2 r3 by (intro write_at_write_at_subslice) (simp_all add: lb3)
          have lb4: "length (write_at (write_at b2 5 wcd) e1 wcg) = length b"
            using r2 r3 by (simp add: length_write_at lb3)
          show ?thesis
          proof (cases "length b - e2 < length wd")
            case True
            have f3: "Data_Write d (drop e2 (write_at (write_at b2 5 wcd) e1 wcg))
                        = (0, Some ErrUnexpectedEOF,
                           drop e2 (write_at (write_at b2 5 wcd) e1 wcg))"
              using True by (simp add: Data_Write_def Data_MarshalLen_def wd lb4)
            have id3: "write_at (write_at (write_at b2 5 wcd) e1 wcg) e2
                         (drop e2 (write_at (write_at b2 5 wcd) e1 wcg))
                       = write_at (write_at b2 5 wcd) e1 wcg"
              using r2 by (simp add: write_at_drop_id lb4)
            from c1 c2 c3 c4 True show ?thesis
              by (simp add: head w1 b3 w2 b4 f3 id3 Let_def)
          next
            case c5: False
            with r2 have r4: "e2 + length wd \<le> length b"
              by arith
            have w3: "Data_Write d (drop e2 (write_at (write_at b2 5 wcd) e1 wcg))
                        = (length wd, None,
                           write_at (drop e2 (write_at (write_at b2 5 wcd) e1 wcg)) 0 wd)"
              using c5 by (simp add: Data_Write_def Data_MarshalLen_def wd lb4)
            have b5: "write_at (write_at (write_at b2 5 wcd) e1 wcg) e2
                        (write_at (drop e2 (write_at (write_at b2 5 wcd) e1 wcg)) 0 wd)
                      = write_at (write_at (write_at b2 5 wcd) e1 wcg) e2 wd"
              using r4 by (intro write_at_write_at_drop) (simp add: lb4)
            from c1 c2 c3 c4 c5 show ?thesis
              by (simp add: head w1 b3 w2 b4 w3 b5 Let_def)
          qed
        qed
      qed
    qed
  qed
qed

text \<open>The pointers \<^verbatim>\<open>NewUDT\<close> computes, and the two ends \<^verbatim>\<open>MarshalTo\<close> derives.\<close>

lemma NewUDT_fields:
  assumes "NewUDT pcls retOnErr (Some cd) (Some cg) data = Inr u"
  shows "UDT.Type u = MsgTypeUDT"
    and "ProtocolClass u = Some (NewProtocolClass pcls retOnErr)"
    and "CalledPartyAddress u = Some cd"
    and "CallingPartyAddress u = Some cg"
    and "Data u = Some (NewData data)"
    and "ptr1 u = 3"
    and "ptr2 u = of_nat (3 + length (addr cd))"
    and "ptr3 u = of_nat (3 + length (addr cd) + length (addr cg))"
  using assms by (auto simp: NewUDT_def Let_def PartyAddress_MarshalLen_def)

lemma unat_of_nat_u8: "unat (of_nat n :: 8 word) = n mod 256"
  by (simp add: unat_of_nat)

lemma mod_ge_self: "(n::nat) \<le> n mod 256 \<Longrightarrow> n < 256 \<and> n mod 256 = n"
  by (metis mod_less_divisor mod_less_eq_dividend le_antisym zero_less_numeral)

lemma UDT_MarshalTo_NewUDT:
  assumes new: "NewUDT pcls retOnErr (Some cd) (Some cg) data = Inr u"
    and enc: "UDT_MarshalTo u b = (None, buf)"
  shows "7 + length (addr cd) + length (addr cg) < 256"
    and "8 + length (addr cd) + length (addr cg) + length data \<le> length b"
    and "buf = [MsgTypeUDT, pc_value (NewProtocolClass pcls retOnErr), 3,
                of_nat (3 + length (addr cd)),
                of_nat (3 + length (addr cd) + length (addr cg))]
               @ (of_nat (length (addr cd)) # addr cd)
               @ (of_nat (length (addr cg)) # addr cg)
               @ (of_nat (length data) # data)
               @ drop (8 + length (addr cd) + length (addr cg) + length data) b"
proof -
  note f = NewUDT_fields [OF new]
  define wcd where "wcd = (of_nat (length (addr cd)) :: byte) # addr cd"
  define wcg where "wcg = (of_nat (length (addr cg)) :: byte) # addr cg"
  define wd where "wd = (of_nat (length (data_value (NewData data))) :: byte)
                          # data_value (NewData data)"
  define b2 where "b2 = b[0 := UDT.Type u, 1 := pc_value (NewProtocolClass pcls retOnErr),
                          2 := ptr1 u, 3 := ptr2 u, 4 := ptr3 u]"
  define e1 where "e1 = unat (ptr2 u + 3)"
  define e2 where "e2 = unat (ptr3 u + 4)"
  have len: "6 \<le> length b"
    using enc by (auto simp: UDT_MarshalTo_def split: if_splits)
  note off = UDT_MarshalTo_offsets [OF len f(2) f(3) f(4) f(5) b2_def e1_def e2_def
      wcd_def wcg_def wd_def]
  from enc have c: "5 \<le> e1" "e1 \<le> length b" "5 + length wcd \<le> e1"
    "e1 \<le> e2" "e2 \<le> length b" "e1 + length wcg \<le> e2" "e2 + length wd \<le> length b"
    and buf: "buf = write_at (write_at (write_at b2 5 wcd) e1 wcg) e2 wd"
    unfolding off by (auto split: if_splits)
  have "ptr2 u + 3 = (of_nat (6 + length (addr cd)) :: byte)"
    by (simp add: f(7))
  then have "e1 = (6 + length (addr cd)) mod 256"
    by (simp only: e1_def unat_of_nat_u8)
  with c(3) have e1: "e1 = 6 + length (addr cd)" and s1: "6 + length (addr cd) < 256"
    using mod_ge_self [of "6 + length (addr cd)"] by (simp_all add: wcd_def)
  have "ptr3 u + 4 = (of_nat (7 + length (addr cd) + length (addr cg)) :: byte)"
    by (simp add: f(8))
  then have "e2 = (7 + length (addr cd) + length (addr cg)) mod 256"
    by (simp only: e2_def unat_of_nat_u8)
  with c(6) e1 have e2: "e2 = 7 + length (addr cd) + length (addr cg)"
    and s2: "7 + length (addr cd) + length (addr cg) < 256"
    using mod_ge_self [of "7 + length (addr cd) + length (addr cg)"] by (simp_all add: wcg_def)
  show "7 + length (addr cd) + length (addr cg) < 256"
    by (rule s2)
  show "8 + length (addr cd) + length (addr cg) + length data \<le> length b"
    using c(7) e2 by (simp add: wd_def NewData_def)
  let ?p = "[MsgTypeUDT, pc_value (NewProtocolClass pcls retOnErr), 3,
             of_nat (3 + length (addr cd)),
             of_nat (3 + length (addr cd) + length (addr cg)) :: byte]"
  have b2: "b2 = ?p @ drop 5 b"
    using len update_0_to_4 [of b "UDT.Type u" "pc_value (NewProtocolClass pcls retOnErr)"
        "ptr1 u" "ptr2 u" "ptr3 u"]
    by (simp add: b2_def f)
  have "write_at b2 5 wcd = ?p @ wcd @ drop (length wcd) (drop 5 b)"
    unfolding b2 by (rule write_at_append) simp
  then have b3: "write_at b2 5 wcd = (?p @ wcd) @ drop (length wcd) (drop 5 b)"
    by simp
  have "write_at (write_at b2 5 wcd) e1 wcg
          = (?p @ wcd) @ wcg @ drop (length wcg) (drop (length wcd) (drop 5 b))"
    unfolding b3 by (rule write_at_append) (simp add: e1 wcd_def)
  then have b4: "write_at (write_at b2 5 wcd) e1 wcg
          = (?p @ wcd @ wcg) @ drop (length wcg) (drop (length wcd) (drop 5 b))"
    by simp
  have "buf = (?p @ wcd @ wcg) @ wd
                @ drop (length wd) (drop (length wcg) (drop (length wcd) (drop 5 b)))"
    unfolding buf b4 by (rule write_at_append) (simp add: e2 wcd_def wcg_def)
  then show "buf = ?p @ (of_nat (length (addr cd)) # addr cd)
               @ (of_nat (length (addr cg)) # addr cg)
               @ (of_nat (length data) # data)
               @ drop (8 + length (addr cd) + length (addr cg) + length data) b"
    by (simp add: wcd_def wcg_def wd_def NewData_def ac_simps)
qed

text \<open>Conversely, \<^verbatim>\<open>MarshalTo\<close> succeeds whenever the pointers fit an octet and the
  buffer holds the three parameters.\<close>

lemma UDT_MarshalTo_NewUDT_succeeds:
  assumes new: "NewUDT pcls retOnErr (Some cd) (Some cg) data = Inr u"
    and small: "7 + length (addr cd) + length (addr cg) < 256"
    and room: "8 + length (addr cd) + length (addr cg) + length data \<le> length b"
  shows "fst (UDT_MarshalTo u b) = None"
proof -
  note f = NewUDT_fields [OF new]
  have len: "6 \<le> length b"
    using room by simp
  have "ptr2 u + 3 = (of_nat (6 + length (addr cd)) :: byte)"
    by (simp add: f(7))
  then have e1: "unat (ptr2 u + 3) = 6 + length (addr cd)"
    using small by (simp only: unat_of_nat_u8) simp
  have "ptr3 u + 4 = (of_nat (7 + length (addr cd) + length (addr cg)) :: byte)"
    by (simp add: f(8))
  then have e2: "unat (ptr3 u + 4) = 7 + length (addr cd) + length (addr cg)"
    using small by (simp only: unat_of_nat_u8) simp
  show ?thesis
    unfolding UDT_MarshalTo_offsets [OF len f(2) f(3) f(4) f(5) refl refl refl refl refl refl]
    using room by (simp add: e1 e2 NewData_def)
qed

lemma nth_after: "length p = i \<Longrightarrow> (p @ x # r) ! i = x"
  by (simp add: nth_append)

lemma subslice_after: "length p = lo \<Longrightarrow> subslice (p @ a @ r) lo (lo + length a) = a"
  by (simp add: subslice_def)

lemma parameter_layout:
  assumes buf: "buf = p @ (x # a) @ (y # c) @ (z # d) @ r" and p: "length p = 5"
  shows "buf ! 5 = x"
    and "subslice buf 6 (6 + length a) = a"
    and "buf ! (6 + length a) = y"
    and "subslice buf (7 + length a) (7 + length a + length c) = c"
    and "buf ! (7 + length a + length c) = z"
    and "subslice buf (8 + length a + length c) (8 + length a + length c + length d) = d"
proof -
  have 1: "buf = p @ x # (a @ (y # c) @ (z # d) @ r)"
    by (simp add: buf)
  have 2: "buf = (p @ [x]) @ a @ ((y # c) @ (z # d) @ r)"
    by (simp add: buf)
  have 3: "buf = (p @ x # a) @ y # (c @ (z # d) @ r)"
    by (simp add: buf)
  have 4: "buf = (p @ x # a @ [y]) @ c @ ((z # d) @ r)"
    by (simp add: buf)
  have 5: "buf = (p @ x # a @ y # c) @ z # (d @ r)"
    by (simp add: buf)
  have 6: "buf = (p @ x # a @ y # c @ [z]) @ d @ r"
    by (simp add: buf)
  show "buf ! 5 = x"
    by (subst 1) (rule nth_after, simp add: p)
  show "subslice buf 6 (6 + length a) = a"
    by (subst 2) (rule subslice_after, simp add: p)
  show "buf ! (6 + length a) = y"
    by (subst 3) (rule nth_after, simp add: p)
  show "subslice buf (7 + length a) (7 + length a + length c) = c"
    by (subst 4) (rule subslice_after, simp add: p)
  show "buf ! (7 + length a + length c) = z"
    by (subst 5) (rule nth_after, simp add: p)
  show "subslice buf (8 + length a + length c) (8 + length a + length c + length d) = d"
    by (subst 6) (rule subslice_after, simp add: p)
qed

text \<open>
  C3, amended. For every UDT built by \<^verbatim>\<open>NewUDT\<close> from two addresses and encoded by
  \<^verbatim>\<open>MarshalTo\<close>, the buffer has \<open>buf[2] = 3\<close>, and each pointer leads to the length
  octet of its parameter, which the parameter's octets follow: \<open>buf[2 + buf[2]]\<close> is the
  length of Called, \<open>buf[3 + buf[3]]\<close> the length of Calling, \<open>buf[4 + buf[4]]\<close> the
  length octet of Data; for Called and Calling addresses of 11 octets, \<open>buf[3] = 14\<close> and
  \<open>buf[4] = 25\<close>.
\<close>

theorem UDT_MarshalTo_pointer_invariants:
  assumes new: "NewUDT pcls retOnErr (Some cd) (Some cg) data = Inr u"
    and enc: "UDT_MarshalTo u b = (None, buf)"
  shows "buf ! 0 = MsgTypeUDT \<and> buf ! 1 = pc_value (NewProtocolClass pcls retOnErr)
         \<and> buf ! 2 = 3
         \<and> unat (buf ! (2 + unat (buf ! 2))) = length (addr cd)
         \<and> subslice buf (2 + unat (buf ! 2) + 1) (2 + unat (buf ! 2) + 1 + length (addr cd))
             = addr cd
         \<and> unat (buf ! (3 + unat (buf ! 3))) = length (addr cg)
         \<and> subslice buf (3 + unat (buf ! 3) + 1) (3 + unat (buf ! 3) + 1 + length (addr cg))
             = addr cg
         \<and> buf ! (4 + unat (buf ! 4)) = of_nat (length data)
         \<and> subslice buf (4 + unat (buf ! 4) + 1) (4 + unat (buf ! 4) + 1 + length data) = data
         \<and> (length (addr cd) = 11 \<and> length (addr cg) = 11 \<longrightarrow> buf ! 3 = 14 \<and> buf ! 4 = 25)"
proof -
  note m = UDT_MarshalTo_NewUDT [OF new enc]
  let ?p = "[MsgTypeUDT, pc_value (NewProtocolClass pcls retOnErr), 3,
             of_nat (3 + length (addr cd)),
             of_nat (3 + length (addr cd) + length (addr cg)) :: byte]"
  have hd: "buf ! 0 = MsgTypeUDT" "buf ! 1 = pc_value (NewProtocolClass pcls retOnErr)"
    "buf ! 2 = 3" "buf ! 3 = of_nat (3 + length (addr cd))"
    "buf ! 4 = of_nat (3 + length (addr cd) + length (addr cg))"
    by (simp_all add: m(3))
  have u2: "unat (buf ! 2) = 3"
    by (simp add: hd(3))
  have u3: "unat (buf ! 3) = 3 + length (addr cd)"
    using m(1) by (simp only: hd(4) unat_of_nat_u8) simp
  have u4: "unat (buf ! 4) = 3 + length (addr cd) + length (addr cg)"
    using m(1) by (simp only: hd(5) unat_of_nat_u8) simp
  have ucd: "unat (of_nat (length (addr cd)) :: byte) = length (addr cd)"
    using m(1) by (simp only: unat_of_nat_u8) simp
  have ucg: "unat (of_nat (length (addr cg)) :: byte) = length (addr cg)"
    using m(1) by (simp only: unat_of_nat_u8) simp
  have p5: "length ?p = 5"
    by simp
  note lay = parameter_layout [OF m(3) p5]
  have "unat (buf ! (2 + unat (buf ! 2))) = length (addr cd)"
    by (simp add: u2 lay(1) ucd)
  moreover have "subslice buf (2 + unat (buf ! 2) + 1) (2 + unat (buf ! 2) + 1 + length (addr cd))
                   = addr cd"
    using lay(2) by (simp add: u2)
  moreover have "unat (buf ! (3 + unat (buf ! 3))) = length (addr cg)"
    using lay(3) by (simp add: u3 ucg)
  moreover have "subslice buf (3 + unat (buf ! 3) + 1) (3 + unat (buf ! 3) + 1 + length (addr cg))
                   = addr cg"
    using lay(4) by (simp add: u3)
  moreover have "buf ! (4 + unat (buf ! 4)) = of_nat (length data)"
    using lay(5) by (simp add: u4 add.assoc)
  moreover have "subslice buf (4 + unat (buf ! 4) + 1) (4 + unat (buf ! 4) + 1 + length data)
                   = data"
    using lay(6) by (simp add: u4 add.assoc)
  moreover have "length (addr cd) = 11 \<and> length (addr cg) = 11 \<longrightarrow> buf ! 3 = 14 \<and> buf ! 4 = 25"
    by (simp add: hd(4) hd(5))
  ultimately show ?thesis
    using hd(1) hd(2) hd(3) by blast
qed

lemma example_udt_new:
  "NewUDT 1 True (Some example_address) (Some example_address) [0xAA, 0xBB, 0xCC]
     = Inr example_udt"
  by code_simp

lemma example_frame_MarshalTo:
  "UDT_MarshalTo example_udt (replicate 35 0) = (None, example_frame)"
  by code_simp

theorem UDT_MarshalTo_pointer_invariants_witness:
  "NewUDT 1 True (Some example_address) (Some example_address) [0xAA, 0xBB, 0xCC]
     = Inr example_udt
   \<and> UDT_MarshalTo example_udt (replicate 35 0) = (None, example_frame)
   \<and> length (addr example_address) = 11
   \<and> example_frame ! 2 = 3 \<and> example_frame ! 3 = 14 \<and> example_frame ! 4 = 25
   \<and> unat (example_frame ! (2 + unat (example_frame ! 2))) = 11
   \<and> unat (example_frame ! (3 + unat (example_frame ! 3))) = 11
   \<and> example_frame ! (4 + unat (example_frame ! 4)) = 3"
proof -
  have l: "length (addr example_address) = 11"
    by (simp add: example_address_def)
  note t = UDT_MarshalTo_pointer_invariants [OF example_udt_new example_frame_MarshalTo,
      unfolded l]
  have d: "of_nat (length [0xAA, 0xBB, 0xCC :: byte]) = (3 :: byte)"
    by simp
  from t l example_udt_new example_frame_MarshalTo show ?thesis
    unfolding d by blast
qed

text \<open>
  C3, as the claim states it, fails in its last part: the UDT of scenario S3 has Called
  and Calling addresses of 11 octets, and its encoding has \<open>buf[3] = 14\<close> and
  \<open>buf[4] = 25\<close>, not 15 and 27.
\<close>

theorem UDT_pointer_values_counterexample:
  "NewUDT 1 True (Some example_address) (Some example_address) [0xAA, 0xBB, 0xCC]
     = Inr example_udt
   \<and> length (addr example_address) = 11
   \<and> UDT_MarshalTo example_udt (replicate 35 0) = (None, example_frame)
   \<and> UDT_MarshalBinary example_udt = Inr example_frame
   \<and> \<not> (example_frame ! 3 = 15 \<and> example_frame ! 4 = 27)"
  by code_simp

end
